theory Spec2Isabelle
  imports Main "HOL-Library.Word"
begin

unbundle bit_operations_syntax

section \<open>The consensus node of pkg/consensus/node.go\<close>

text \<open>
  The embedding follows \<^verbatim>\<open>node.go\<close> function by function. Every method of
  \<^verbatim>\<open>Node\<close> takes \<^verbatim>\<open>n.mu\<close> on entry and releases it on return, so a method is one
  atomic step on the state and the mutex has no field in the model. A panic is a value
  of type \<open>panic\<close>; a goroutine started with \<^verbatim>\<open>go\<close> is a value of type \<open>task\<close>
  appended to the trace of the step that starts it, and is run by a function of its own.

  Types and functions that \<^verbatim>\<open>node.go\<close> uses but does not declare (\<^verbatim>\<open>SK\<close>,
  \<^verbatim>\<open>bls.SecretKey\<close>, \<^verbatim>\<open>Chain\<close>, \<^verbatim>\<open>Networking\<close>, \<^verbatim>\<open>SHA3\<close>, ...) are type
  variables and function parameters, named as in the source.
\<close>

subsection \<open>Data\<close>

type_synonym round = "64 word"
type_synonym byte = "8 word"

text \<open>A Go \<^verbatim>\<open>error\<close> is represented by its message.\<close>

type_synonym err = string

text \<open>
  The ways a step can panic: \<^verbatim>\<open>panic(err)\<close> (also inside \<^verbatim>\<open>MustGet\<close>), an index
  out of range (index, length), a call of a nil function value and a write through a
  nil pointer.
\<close>

datatype panic = PanicErr err | IndexOutOfRange nat nat | NilFuncCall | NilPointerDereference

text \<open>Group ids are Go \<^verbatim>\<open>int\<close>s that are only stored and compared for equality.\<close>

record 'key membership =
  skShare :: 'key
  groupID :: int

record Config =
  BlockTime :: int
  GroupSize :: int
  GroupThreshold :: int

record 'sk NodeCredentials =
  SK :: 'sk
  Groups :: "int list"
  GroupShares :: "'sk list"

text \<open>
  A channel and a cancellable context are shared between the node and the goroutines it
  starts, so the node holds references: \<open>notarizeChs\<close> are indices into the channel
  store and \<open>cancelNotarize\<close> is the index of the context that the stored cancel
  function cancels (\<open>None\<close> is the nil function value).
\<close>

record ('addr, 'sk, 'key, 'net, 'chain) Node =
  addr :: 'addr
  cfg :: Config
  sk :: 'sk
  net :: 'net
  chain :: 'chain
  memberships :: "'key membership list"
  notarizeChs :: "nat list"
  cancelNotarize :: "nat option"

subsection \<open>NewNode, MakeNode, LoadCredential\<close>

text \<open>
  \<^verbatim>\<open>NewNode\<close>: \<^verbatim>\<open>sk.PK()\<close> and \<^verbatim>\<open>pk.Addr()\<close> are the parameters \<open>PK\<close> and
  \<open>Addr\<close>. The argument \<^verbatim>\<open>chain\<close> is a pointer, \<open>None\<close> when it is nil: the
  assignment \<^verbatim>\<open>chain.n = n\<close>, made once the node is built, panics on a nil pointer.
  The field \<^verbatim>\<open>n\<close> it writes belongs to \<^verbatim>\<open>Chain\<close> and is not part of the node, so
  a node holds a chain that is not nil.
\<close>

definition NewNode ::
  "('sk \<Rightarrow> err + 'pk) \<Rightarrow> ('pk \<Rightarrow> 'addr) \<Rightarrow> 'chain option \<Rightarrow> 'sk \<Rightarrow> 'net \<Rightarrow> Config
    \<Rightarrow> panic + ('addr, 'sk, 'key, 'net, 'chain) Node" where
  "NewNode PK Addr chain0 sk0 net0 cfg0 =
     (case PK sk0 of
        Inl e \<Rightarrow> Inl (PanicErr e)
      | Inr pk \<Rightarrow>
          (case chain0 of
             None \<Rightarrow> Inl NilPointerDereference
           | Some c \<Rightarrow>
               Inr \<lparr>addr = Addr pk, cfg = cfg0, sk = sk0, net = net0, chain = c,
                    memberships = [], notarizeChs = [], cancelNotarize = None\<rparr>))"

text \<open>
  The loop of \<^verbatim>\<open>MakeNode\<close> over \<^verbatim>\<open>j := range credentials.Groups\<close>, with the indices
  still to visit and the memberships appended so far. \<^verbatim>\<open>GroupShares[j]\<close> panics when
  \<open>j\<close> is out of range; \<open>Get\<close> is \<^verbatim>\<open>SK.Get\<close>.
\<close>

fun MakeNode_loop ::
  "('sk \<Rightarrow> err + 'key) \<Rightarrow> 'sk NodeCredentials \<Rightarrow> nat list \<Rightarrow> 'key membership list
    \<Rightarrow> panic + 'key membership list" where
  "MakeNode_loop Get credentials [] ms = Inr ms"
| "MakeNode_loop Get credentials (j # js) ms =
     (if j < length (GroupShares credentials) then
        (case Get (GroupShares credentials ! j) of
           Inl e \<Rightarrow> Inl (PanicErr e)
         | Inr share \<Rightarrow>
             MakeNode_loop Get credentials js
               (ms @ [\<lparr>skShare = share, groupID = Groups credentials ! j\<rparr>]))
      else Inl (IndexOutOfRange j (length (GroupShares credentials))))"

text \<open>
  \<^verbatim>\<open>MakeNode\<close>. The arguments \<^verbatim>\<open>genesis\<close>, \<^verbatim>\<open>state\<close>, \<^verbatim>\<open>txnPool\<close>, \<^verbatim>\<open>u\<close> and the
  seed \<^verbatim>\<open>Rand(SHA3([]byte("dex")))\<close> are only handed to \<^verbatim>\<open>NewChain\<close>, and \<^verbatim>\<open>net\<close>
  only to \<^verbatim>\<open>NewNetworking\<close>: the parameter \<open>NewChain\<close> is \<^verbatim>\<open>NewChain\<close> applied to
  all its arguments but \<^verbatim>\<open>cfg\<close>, and \<open>NewNetworking\<close> is \<^verbatim>\<open>NewNetworking\<close> applied
  to \<^verbatim>\<open>net\<close>; both return what they build, which is not nil. The back pointer
  \<^verbatim>\<open>RandomBeacon.n = node\<close> is a field of the chain's beacon and is not part of the
  node.
\<close>

definition MakeNode ::
  "('sk \<Rightarrow> err + 'pk) \<Rightarrow> ('pk \<Rightarrow> 'addr) \<Rightarrow> ('sk \<Rightarrow> err + 'key) \<Rightarrow> (Config \<Rightarrow> 'chain)
    \<Rightarrow> ('chain \<Rightarrow> 'net) \<Rightarrow> 'sk NodeCredentials \<Rightarrow> Config
    \<Rightarrow> panic + ('addr, 'sk, 'key, 'net, 'chain) Node" where
  "MakeNode PK Addr Get NewChain NewNetworking credentials cfg0 =
     (let chain0 = NewChain cfg0;
          networking = NewNetworking chain0
      in case NewNode PK Addr (Some chain0) (SK credentials) networking cfg0 of
           Inl p \<Rightarrow> Inl p
         | Inr node \<Rightarrow>
             (case MakeNode_loop Get credentials [0..<length (Groups credentials)]
                     (memberships node) of
                Inl p \<Rightarrow> Inl p
              | Inr ms \<Rightarrow> Inr (node\<lparr>memberships := ms\<rparr>)))"

text \<open>
  \<^verbatim>\<open>LoadCredential\<close>: \<open>ReadFile\<close> is \<^verbatim>\<open>ioutil.ReadFile\<close> and \<open>gobDecode\<close> is the gob
  decoding of the bytes into a \<^verbatim>\<open>NodeCredentials\<close>. An error is wrapped by
  \<^verbatim>\<open>fmt.Errorf\<close>; the credentials returned next to an error are not kept.
\<close>

definition LoadCredential ::
  "(string \<Rightarrow> err + byte list) \<Rightarrow> (byte list \<Rightarrow> err + 'sk NodeCredentials) \<Rightarrow> string
    \<Rightarrow> err + 'sk NodeCredentials" where
  "LoadCredential ReadFile gobDecode path =
     (case ReadFile path of
        Inl e \<Rightarrow> Inl (''open credential file failed: '' @ e)
      | Inr b \<Rightarrow>
          (case gobDecode b of
             Inl e \<Rightarrow> Inl (''decode credential file failed: '' @ e)
           | Inr c \<Rightarrow> Inr c))"

subsection \<open>The state around the node, goroutines and the trace\<close>

text \<open>
  A channel made by \<^verbatim>\<open>make(chan *BlockProposal, k)\<close>: its capacity and the proposals
  queued in it, oldest first.
\<close>

record 'bp chan =
  cap :: nat
  buf :: "'bp list"

text \<open>The notary that \<^verbatim>\<open>NewNotary(addr, sk, share, chain)\<close> returns is that call.\<close>

datatype ('addr, 'key, 'chain) notary = NewNotary 'addr 'key 'key 'chain

text \<open>
  The three goroutines of \<^verbatim>\<open>node.go\<close>:
  \<^item> \<open>Propose bp\<close> hands the proposal to \<^verbatim>\<open>n.net.recvBlockProposal\<close>;
  \<^item> \<open>Notarize notary d c ch\<close> runs \<^verbatim>\<open>notary.Notarize\<close> with a context whose
    deadline is \<open>d\<close> (\<^verbatim>\<open>cfg.BlockTime\<close>) after its start, the shared context \<open>c\<close>
    and the input channel \<open>ch\<close>;
  \<^item> \<open>BeaconShare keyShare round\<close> signs and hands on a random-beacon share.
\<close>

datatype ('addr, 'key, 'chain, 'bp) task =
    Propose 'bp
  | Notarize "('addr, 'key, 'chain) notary" int nat nat
  | BeaconShare 'key round

text \<open>
  The trace of a step, in program order: \<open>Call_ProposeBlock chain sk\<close> is the call
  \<^verbatim>\<open>n.chain.ProposeBlock(n.sk)\<close> made by the caller's own thread, \<open>Go t\<close> is a
  \<^verbatim>\<open>go\<close> statement starting \<open>t\<close>.
\<close>

datatype ('addr, 'sk, 'key, 'chain, 'bp) event =
    Call_ProposeBlock 'chain 'sk
  | Go "('addr, 'key, 'chain, 'bp) task"

text \<open>
  The node, the channels (\<open>chans ! i\<close> is channel \<open>i\<close>), the cancellable contexts
  (\<open>ctxs ! i\<close> holds iff context \<open>i\<close> has been cancelled) and the trace so far.
\<close>

record ('addr, 'sk, 'key, 'net, 'chain, 'bp) state =
  node :: "('addr, 'sk, 'key, 'net, 'chain) Node"
  chans :: "'bp chan list"
  ctxs :: "bool list"
  trace :: "('addr, 'sk, 'key, 'chain, 'bp) event list"

subsection \<open>StartRound\<close>

text \<open>
  One iteration of the loop of \<^verbatim>\<open>_StartRound\<close> for the membership \<open>m\<close>; \<open>bp\<close> and
  \<open>nt\<close> are the proposer and notary committees and \<open>ntCancelCtx\<close> is the local
  variable of that name (\<open>None\<close> is nil). \<^verbatim>\<open>context.WithCancel\<close> allocates a context
  that is not cancelled, \<^verbatim>\<open>n.sk.MustGet()\<close> panics when \<open>Get\<close> fails, and
  \<^verbatim>\<open>make(chan *BlockProposal, 20)\<close> allocates an empty channel.
\<close>

definition StartRound_body ::
  "('chain \<Rightarrow> 'sk \<Rightarrow> 'bp) \<Rightarrow> ('sk \<Rightarrow> err + 'key) \<Rightarrow> int \<Rightarrow> int \<Rightarrow> 'key membership
    \<Rightarrow> ('addr, 'sk, 'key, 'net, 'chain, 'bp) state \<Rightarrow> nat option
    \<Rightarrow> panic + (('addr, 'sk, 'key, 'net, 'chain, 'bp) state \<times> nat option)" where
  "StartRound_body ProposeBlock Get bp nt m s ntCancelCtx =
     (let s1 =
        (if groupID m = bp then
           (let p = ProposeBlock (chain (node s)) (sk (node s))
            in s\<lparr>trace := trace s @
                   [Call_ProposeBlock (chain (node s)) (sk (node s)), Go (Propose p)]\<rparr>)
         else s)
      in if groupID m = nt then
           (let (s2, c) =
              (case ntCancelCtx of
                 None \<Rightarrow>
                   (s1\<lparr>ctxs := ctxs s1 @ [False],
                       node := (node s1)\<lparr>cancelNotarize := Some (length (ctxs s1))\<rparr>\<rparr>,
                    length (ctxs s1))
               | Some c \<Rightarrow> (s1, c))
            in case Get (sk (node s2)) of
                 Inl e \<Rightarrow> Inl (PanicErr e)
               | Inr k \<Rightarrow>
                   (let notary = NewNotary (addr (node s2)) k (skShare m) (chain (node s2));
                        inCh = length (chans s2)
                    in Inr (s2\<lparr>chans := chans s2 @ [\<lparr>cap = 20, buf = []\<rparr>],
                               node := (node s2)\<lparr>notarizeChs := notarizeChs (node s2) @ [inCh]\<rparr>,
                               trace := trace s2 @
                                 [Go (Notarize notary (BlockTime (cfg (node s2))) c inCh)]\<rparr>,
                            Some c)))
         else Inr (s1, ntCancelCtx))"

fun StartRound_loop ::
  "('chain \<Rightarrow> 'sk \<Rightarrow> 'bp) \<Rightarrow> ('sk \<Rightarrow> err + 'key) \<Rightarrow> int \<Rightarrow> int \<Rightarrow> 'key membership list
    \<Rightarrow> ('addr, 'sk, 'key, 'net, 'chain, 'bp) state \<Rightarrow> nat option
    \<Rightarrow> panic + (('addr, 'sk, 'key, 'net, 'chain, 'bp) state \<times> nat option)" where
  "StartRound_loop ProposeBlock Get bp nt [] s ntCancelCtx = Inr (s, ntCancelCtx)"
| "StartRound_loop ProposeBlock Get bp nt (m # ms) s ntCancelCtx =
     (case StartRound_body ProposeBlock Get bp nt m s ntCancelCtx of
        Inl p \<Rightarrow> Inl p
      | Inr (s', c') \<Rightarrow> StartRound_loop ProposeBlock Get bp nt ms s' c')"

text \<open>
  \<^verbatim>\<open>_StartRound\<close>; \<open>committees\<close> is \<^verbatim>\<open>n.chain.RandomBeacon.Committees\<close>, the triple
  of the random-beacon, proposer and notary committees.
\<close>

definition StartRound ::
  "('chain \<Rightarrow> round \<Rightarrow> int \<times> int \<times> int) \<Rightarrow> ('chain \<Rightarrow> 'sk \<Rightarrow> 'bp) \<Rightarrow> ('sk \<Rightarrow> err + 'key)
    \<Rightarrow> round \<Rightarrow> ('addr, 'sk, 'key, 'net, 'chain, 'bp) state
    \<Rightarrow> panic + ('addr, 'sk, 'key, 'net, 'chain, 'bp) state" where
  "StartRound committees ProposeBlock Get rnd s =
     (case committees (chain (node s)) rnd of
        (_, bp, nt) \<Rightarrow>
          (case StartRound_loop ProposeBlock Get bp nt (memberships (node s)) s None of
             Inl p \<Rightarrow> Inl p
           | Inr (s', _) \<Rightarrow> Inr s'))"

subsection \<open>EndRound\<close>

text \<open>
  Calling the function value \<^verbatim>\<open>n.cancelNotarize\<close>: a nil function panics; the cancel
  function of \<^verbatim>\<open>context.WithCancel\<close> marks its context cancelled.
\<close>

definition call_cancel :: "nat option \<Rightarrow> bool list \<Rightarrow> panic + bool list" where
  "call_cancel f cs = (case f of None \<Rightarrow> Inl NilFuncCall | Some c \<Rightarrow> Inr (cs[c := True]))"

text \<open>The loop of \<^verbatim>\<open>EndRound\<close>: one goroutine for each membership of committee \<open>rb\<close>.\<close>

fun EndRound_loop ::
  "int \<Rightarrow> round \<Rightarrow> 'key membership list \<Rightarrow> ('addr, 'sk, 'key, 'chain, 'bp) event list
    \<Rightarrow> ('addr, 'sk, 'key, 'chain, 'bp) event list" where
  "EndRound_loop rb rnd [] tr = tr"
| "EndRound_loop rb rnd (m # ms) tr =
     (if groupID m \<noteq> rb then EndRound_loop rb rnd ms tr
      else (let keyShare = skShare m
            in EndRound_loop rb rnd ms (tr @ [Go (BeaconShare keyShare rnd)])))"

definition EndRound ::
  "('chain \<Rightarrow> round \<Rightarrow> int \<times> int \<times> int) \<Rightarrow> round
    \<Rightarrow> ('addr, 'sk, 'key, 'net, 'chain, 'bp) state
    \<Rightarrow> panic + ('addr, 'sk, 'key, 'net, 'chain, 'bp) state" where
  "EndRound committees rnd s =
     (let s1 = s\<lparr>node := (node s)\<lparr>notarizeChs := []\<rparr>\<rparr>
      in case (if cancelNotarize (node s1) \<noteq> None
               then call_cancel (cancelNotarize (node s1)) (ctxs s1)
               else Inr (ctxs s1)) of
           Inl p \<Rightarrow> Inl p
         | Inr cs \<Rightarrow>
             (case committees (chain (node s1)) rnd of
                (rb, _, _) \<Rightarrow>
                  Inr (s1\<lparr>ctxs := cs,
                          trace := EndRound_loop rb rnd (memberships (node s1)) (trace s1)\<rparr>)))"

text \<open>
  What a goroutine of the node does to the network: the call of a method of
  \<^verbatim>\<open>Networking\<close> on \<^verbatim>\<open>n.net\<close>, with the sender \<^verbatim>\<open>n.net.myself\<close> and a
  random-beacon share or a block proposal.
\<close>

datatype ('net, 'peer, 'share) share_call = recvRandBeaconSigShare 'net 'peer 'share

datatype ('net, 'peer, 'bp) proposal_call = recvBlockProposal 'net 'peer 'bp

text \<open>
  The goroutine of \<^verbatim>\<open>EndRound\<close>, run on the node \<open>n\<close> when
  \<^verbatim>\<open>n.chain.RandomBeacon.History()\<close> returns \<open>history\<close>. \<open>Sig\<close> is the field of that
  name of a history entry and \<open>myself\<close> the field of that name of \<^verbatim>\<open>Networking\<close>.
  The result is the call \<^verbatim>\<open>n.net.recvRandBeaconSigShare(n.net.myself, s)\<close> that ends
  the goroutine, or the panic that ends it before (and, not being recovered, ends the
  process).
\<close>

definition BeaconShare_run ::
  "('rbs \<Rightarrow> byte list) \<Rightarrow> (byte list \<Rightarrow> 'hash) \<Rightarrow> ('sk \<Rightarrow> err + 'key)
    \<Rightarrow> ('key \<Rightarrow> 'key \<Rightarrow> round \<Rightarrow> 'hash \<Rightarrow> 'share) \<Rightarrow> ('net \<Rightarrow> 'peer)
    \<Rightarrow> ('addr, 'sk, 'key, 'net, 'chain) Node \<Rightarrow> 'rbs list \<Rightarrow> 'key \<Rightarrow> round
    \<Rightarrow> panic + ('net, 'peer, 'share) share_call" where
  "BeaconShare_run Sig SHA3 Get signRandBeaconShare myself n history keyShare rnd =
     (if unat rnd < length history then
        (let lastSigHash = SHA3 (Sig (history ! unat rnd))
         in case Get (sk n) of
              Inl e \<Rightarrow> Inl (PanicErr e)
            | Inr k \<Rightarrow>
                (let s = signRandBeaconShare k keyShare (rnd + 1) lastSigHash
                 in Inr (recvRandBeaconSigShare (net n) (myself (net n)) s)))
      else Inl (IndexOutOfRange (unat rnd) (length history)))"

text \<open>
  The goroutine of \<^verbatim>\<open>_StartRound\<close> that broadcasts the proposal \<open>bp\<close> it is started
  with: after a line of the debug log, the call
  \<^verbatim>\<open>n.net.recvBlockProposal(n.net.myself, bp)\<close>.
\<close>

definition Propose_run ::
  "('net \<Rightarrow> 'peer) \<Rightarrow> ('addr, 'sk, 'key, 'net, 'chain) Node \<Rightarrow> 'bp
    \<Rightarrow> ('net, 'peer, 'bp) proposal_call" where
  "Propose_run myself n bp = recvBlockProposal (net n) (myself (net n)) bp"

subsection \<open>RecvBlockProposal\<close>

text \<open>
  A step that sends on channels either returns or stays blocked in a send, with the
  channels as they are at that moment.
\<close>

datatype 'a outcome = Returns 'a | Blocks 'a

text \<open>
  The loop \<^verbatim>\<open>for _, ch := range n.notarizeChs { ch <- bp }\<close>: a send on a channel with
  room appends to its queue; a send on a full channel blocks, and so does a send on a
  reference that is no channel (in Go, the nil channel).
\<close>

fun RecvBlockProposal_loop :: "nat list \<Rightarrow> 'bp \<Rightarrow> 'bp chan list \<Rightarrow> 'bp chan list outcome" where
  "RecvBlockProposal_loop [] bp cs = Returns cs"
| "RecvBlockProposal_loop (ch # chs) bp cs =
     (if ch < length cs \<and> length (buf (cs ! ch)) < cap (cs ! ch)
      then RecvBlockProposal_loop chs bp (cs[ch := (cs ! ch)\<lparr>buf := buf (cs ! ch) @ [bp]\<rparr>])
      else Blocks cs)"

definition RecvBlockProposal ::
  "'bp \<Rightarrow> ('addr, 'sk, 'key, 'net, 'chain, 'bp) state
    \<Rightarrow> ('addr, 'sk, 'key, 'net, 'chain, 'bp) state outcome" where
  "RecvBlockProposal bp s =
     (case RecvBlockProposal_loop (notarizeChs (node s)) bp (chans s) of
        Returns cs \<Rightarrow> Returns (s\<lparr>chans := cs\<rparr>)
      | Blocks cs \<Rightarrow> Blocks (s\<lparr>chans := cs\<rparr>))"

subsection \<open>The random beacon's committees\<close>

text \<open>
  Modelled from the spec: \<^verbatim>\<open>RandomBeacon\<close> and its method \<^verbatim>\<open>Committees\<close> are not in
  the source files at hand (only the calls in \<^verbatim>\<open>node.go\<close> are). The spec gives the
  random beacon an append-only history of beacon signatures indexed by round, read by
  \<^verbatim>\<open>History()\<close>, and makes \<^verbatim>\<open>Committees(round)\<close> a pure function of
  \<^verbatim>\<open>History()[0..round)\<close>: the committee selector applied to the round and to the
  history before that round. The selector itself is a parameter. Whatever else a
  node keeps in its beacon is the extension of the record.
\<close>

record 'rbs RandomBeacon =
  History :: "'rbs list"


subsection \<open>MarketSymbol\<close>

text \<open>
  Modelled from the spec: \<^verbatim>\<open>MarketSymbol\<close> and its methods \<^verbatim>\<open>Encode\<close> and
  \<^verbatim>\<open>Decode\<close> are not in the source files at hand (only their tests are). The tests
  fix two 64-bit fields \<^verbatim>\<open>Quote\<close> and \<^verbatim>\<open>Base\<close> and a \<^verbatim>\<open>Decode\<close> that can fail;
  the spec calls the encoding fixed-width, a key of 128 bits in total. The model
  writes \<^verbatim>\<open>Quote\<close> and then \<^verbatim>\<open>Base\<close>, eight bytes each, least significant byte
  first, and decodes exactly the byte strings of length 16.
\<close>

record MarketSymbol =
  Quote :: "64 word"
  Base :: "64 word"

definition u64_bytes :: "64 word \<Rightarrow> byte list" where
  "u64_bytes w = map (\<lambda>i. ucast (drop_bit (8 * i) w)) [0..<8]"

definition bytes_u64 :: "byte list \<Rightarrow> 64 word" where
  "bytes_u64 bs = foldr (\<lambda>b acc. ucast b OR push_bit 8 acc) bs 0"

definition Encode :: "MarketSymbol \<Rightarrow> byte list" where
  "Encode m = u64_bytes (Quote m) @ u64_bytes (Base m)"

definition Decode :: "byte list \<Rightarrow> err + MarketSymbol" where
  "Decode b =
     (if length b \<noteq> 16 then Inl ''bytes len not correct''
      else Inr \<lparr>Quote = bytes_u64 (take 8 b), Base = bytes_u64 (drop 8 b)\<rparr>)"

section \<open>Properties\<close>

subsection \<open>Starting a node\<close>

lemma MakeNode_loop_Inr:
  "MakeNode_loop Get c js ms = Inr ms' \<Longrightarrow>
     (\<forall>j\<in>set js. j < length (GroupShares c) \<and> \<not> isl (Get (GroupShares c ! j))) \<and>
     ms' = ms @ map (\<lambda>j. \<lparr>skShare = projr (Get (GroupShares c ! j)), groupID = Groups c ! j\<rparr>) js"
proof (induction js arbitrary: ms)
  case Nil
  then show ?case by simp
next
  case (Cons j js)
  from Cons.prems have inr: "j < length (GroupShares c)"
    by (simp split: if_splits)
  from Cons.prems inr obtain share where g: "Get (GroupShares c ! j) = Inr share"
    by (cases "Get (GroupShares c ! j)") simp_all
  from Cons.prems inr g
  have "MakeNode_loop Get c js (ms @ [\<lparr>skShare = share, groupID = Groups c ! j\<rparr>]) = Inr ms'"
    by simp
  from Cons.IH [OF this] inr g show ?case by simp
qed

lemma MakeNode_loop_ok:
  "\<forall>j\<in>set js. j < length (GroupShares c) \<and> \<not> isl (Get (GroupShares c ! j)) \<Longrightarrow>
   MakeNode_loop Get c js ms =
     Inr (ms @ map (\<lambda>j. \<lparr>skShare = projr (Get (GroupShares c ! j)), groupID = Groups c ! j\<rparr>) js)"
proof (induction js arbitrary: ms)
  case Nil
  then show ?case by simp
next
  case (Cons j js)
  then obtain share where g: "Get (GroupShares c ! j) = Inr share"
    by (cases "Get (GroupShares c ! j)") simp_all
  with Cons show ?case by simp
qed

lemma MakeNode_loop_oob:
  "\<forall>j\<in>set js1. j < length (GroupShares c) \<and> \<not> isl (Get (GroupShares c ! j)) \<Longrightarrow>
   \<not> j < length (GroupShares c) \<Longrightarrow>
   MakeNode_loop Get c (js1 @ j # js2) ms = Inl (IndexOutOfRange j (length (GroupShares c)))"
proof (induction js1 arbitrary: ms)
  case Nil
  then show ?case by simp
next
  case (Cons i js1)
  then obtain share where g: "Get (GroupShares c ! i) = Inr share"
    by (cases "Get (GroupShares c ! i)") simp_all
  with Cons show ?case by simp
qed

lemma MakeNode_loop_panics:
  "j \<in> set js \<Longrightarrow> \<not> j < length (GroupShares c) \<or> isl (Get (GroupShares c ! j)) \<Longrightarrow>
   isl (MakeNode_loop Get c js ms)"
proof (cases "MakeNode_loop Get c js ms")
  case (Inl p)
  then show ?thesis by simp
next
  case (Inr ms')
  assume "j \<in> set js" "\<not> j < length (GroupShares c) \<or> isl (Get (GroupShares c ! j))"
  with MakeNode_loop_Inr [OF Inr] show ?thesis by blast
qed


text \<open>
  C6. Credential failures at startup are fatal. \<^verbatim>\<open>LoadCredential\<close> returns an error
  exactly when the file cannot be read or its gob decoding fails, and the decoded
  credentials otherwise; a secret key whose retrieval fails makes \<^verbatim>\<open>NewNode\<close>, and
  so \<^verbatim>\<open>MakeNode\<close>, panic with that error, and a group share among those paired with
  a group whose retrieval fails makes \<^verbatim>\<open>MakeNode\<close> panic: nothing is retried or
  skipped.
\<close>

theorem LoadCredential_NewNode_MakeNode_failures:
  "(isl (LoadCredential ReadFile gobDecode path) \<longleftrightarrow>
      isl (ReadFile path) \<or> (\<exists>b. ReadFile path = Inr b \<and> isl (gobDecode b))) \<and>
   (ReadFile path = Inr b \<and> gobDecode b = Inr c \<longrightarrow> LoadCredential ReadFile gobDecode path = Inr c) \<and>
   (PK sk0 = Inl e \<longrightarrow>
      (NewNode PK Addr chain0 sk0 net0 cfg0 :: panic + ('addr, 'sk, 'key, 'net, 'chain) Node)
        = Inl (PanicErr e)) \<and>
   (PK (SK credentials) = Inl e \<longrightarrow>
      (MakeNode PK Addr Get NewChain NewNetworking credentials cfg0
         :: panic + ('addr, 'sk, 'key, 'net, 'chain) Node) = Inl (PanicErr e)) \<and>
   (j < length (Groups credentials) \<and> j < length (GroupShares credentials) \<and>
    isl (Get (GroupShares credentials ! j)) \<longrightarrow>
      isl (MakeNode PK Addr Get NewChain NewNetworking credentials cfg0
         :: panic + ('addr, 'sk, 'key, 'net, 'chain) Node))"
proof (intro conjI impI)
  show "isl (LoadCredential ReadFile gobDecode path) \<longleftrightarrow>
      isl (ReadFile path) \<or> (\<exists>b. ReadFile path = Inr b \<and> isl (gobDecode b))"
    by (auto simp: LoadCredential_def split: sum.splits)
next
  assume "ReadFile path = Inr b \<and> gobDecode b = Inr c"
  then show "LoadCredential ReadFile gobDecode path = Inr c"
    by (simp add: LoadCredential_def)
next
  assume "PK sk0 = Inl e"
  then show "(NewNode PK Addr chain0 sk0 net0 cfg0 :: panic + ('addr, 'sk, 'key, 'net, 'chain) Node)
        = Inl (PanicErr e)"
    by (simp add: NewNode_def)
next
  assume "PK (SK credentials) = Inl e"
  then show "(MakeNode PK Addr Get NewChain NewNetworking credentials cfg0
         :: panic + ('addr, 'sk, 'key, 'net, 'chain) Node) = Inl (PanicErr e)"
    by (simp add: MakeNode_def NewNode_def)
next
  assume a: "j < length (Groups credentials) \<and> j < length (GroupShares credentials) \<and>
    isl (Get (GroupShares credentials ! j))"
  then have "j \<in> set [0..<length (Groups credentials)]" by simp
  from MakeNode_loop_panics [OF this, of credentials Get] a
  have l: "isl (MakeNode_loop Get credentials [0..<length (Groups credentials)] ms)" for ms
    by blast
  then show "isl (MakeNode PK Addr Get NewChain NewNetworking credentials cfg0
         :: panic + ('addr, 'sk, 'key, 'net, 'chain) Node)"
  proof (cases "NewNode PK Addr (Some (NewChain cfg0)) (SK credentials) (NewNetworking (NewChain cfg0)) cfg0
                  :: panic + ('addr, 'sk, 'key, 'net, 'chain) Node")
    case (Inl p)
    then show ?thesis by (simp add: MakeNode_def)
  next
    case (Inr n)
    from l [of "memberships n"] obtain p where
      "MakeNode_loop Get credentials [0..<length (Groups credentials)] (memberships n) = Inl p"
      by (auto simp: isl_def)
    with Inr show ?thesis by (simp add: MakeNode_def)
  qed
qed

theorem LoadCredential_NewNode_MakeNode_failures_witness:
  "(\<lambda>_. Inr [1, 2]) ''cred'' = (Inr [1, 2] :: err + byte list) \<and>
   (\<lambda>_. Inr \<lparr>SK = 5, Groups = [1], GroupShares = [6]\<rparr>) [1, 2 :: byte]
      = (Inr \<lparr>SK = 5, Groups = [1], GroupShares = [6]\<rparr> :: err + nat NodeCredentials) \<and>
   LoadCredential (\<lambda>_. Inr [1, 2]) (\<lambda>_. Inr \<lparr>SK = 5, Groups = [1], GroupShares = [6]\<rparr>) ''cred''
      = (Inr \<lparr>SK = 5, Groups = [1], GroupShares = [6]\<rparr> :: err + nat NodeCredentials) \<and>
   (NewNode (\<lambda>_. Inl ''bad key'' :: err + nat) (\<lambda>pk. pk) (Some ()) (5 :: nat) () \<lparr>BlockTime = 1, GroupSize = 3, GroupThreshold = 2\<rparr>
      :: panic + (nat, nat, nat, unit, unit) Node) = Inl (PanicErr ''bad key'') \<and>
   (MakeNode (\<lambda>_. Inl ''bad key'' :: err + nat) (\<lambda>pk. pk) (\<lambda>_. Inl ''bad share'') (\<lambda>_. ()) (\<lambda>_. ())
       \<lparr>SK = 5 :: nat, Groups = [1], GroupShares = [6]\<rparr> \<lparr>BlockTime = 1, GroupSize = 3, GroupThreshold = 2\<rparr>
      :: panic + (nat, nat, nat, unit, unit) Node) = Inl (PanicErr ''bad key'') \<and>
   isl (MakeNode (\<lambda>_. Inl ''bad key'' :: err + nat) (\<lambda>pk. pk) (\<lambda>_. Inl ''bad share'') (\<lambda>_. ()) (\<lambda>_. ())
       \<lparr>SK = 5 :: nat, Groups = [1], GroupShares = [6]\<rparr> \<lparr>BlockTime = 1, GroupSize = 3, GroupThreshold = 2\<rparr>
      :: panic + (nat, nat, nat, unit, unit) Node)"
  using LoadCredential_NewNode_MakeNode_failures
    [where ReadFile = "\<lambda>_. Inr [1, 2]" and path = "''cred''" and b = "[1, 2]"
       and gobDecode = "\<lambda>_. Inr \<lparr>SK = 5, Groups = [1], GroupShares = [6]\<rparr>"
       and c = "\<lparr>SK = 5 :: nat, Groups = [1], GroupShares = [6]\<rparr>"
       and PK = "\<lambda>_. Inl ''bad key'' :: err + nat" and ?sk0.0 = "5 :: nat" and e = "''bad key''"
       and Addr = "\<lambda>pk. pk" and ?chain0.0 = "Some ()" and ?net0.0 = "()"
       and ?cfg0.0 = "\<lparr>BlockTime = 1, GroupSize = 3, GroupThreshold = 2\<rparr>"
       and credentials = "\<lparr>SK = 5 :: nat, Groups = [1], GroupShares = [6]\<rparr>"
       and Get = "\<lambda>_. Inl ''bad share'' :: err + nat" and NewChain = "\<lambda>_. ()" and NewNetworking = "\<lambda>_. ()"
       and j = 0]
  by simp

text \<open>
  C9. \<^verbatim>\<open>MakeNode\<close> creates one membership for each entry of \<^verbatim>\<open>Groups\<close>, pairing
  \<^verbatim>\<open>Groups[j]\<close> with the share retrieved from \<^verbatim>\<open>GroupShares[j]\<close>, in order: a node
  that is returned has exactly these memberships, and a node is returned when the node
  key and every paired share can be retrieved. With fewer shares than groups
  \<^verbatim>\<open>MakeNode\<close> panics, and the panic is the index out of range at
  \<^verbatim>\<open>len(GroupShares)\<close> unless an earlier retrieval has failed already.
\<close>

theorem MakeNode_memberships:
  "(MakeNode PK Addr Get NewChain NewNetworking credentials cfg0 = Inr n \<longrightarrow>
      length (memberships n) = length (Groups credentials) \<and>
      (\<forall>j<length (Groups credentials).
         j < length (GroupShares credentials) \<and>
         Get (GroupShares credentials ! j) = Inr (skShare (memberships n ! j)) \<and>
         groupID (memberships n ! j) = Groups credentials ! j)) \<and>
   (\<not> isl (PK (SK credentials)) \<and>
    length (Groups credentials) \<le> length (GroupShares credentials) \<and>
    (\<forall>j<length (Groups credentials). \<not> isl (Get (GroupShares credentials ! j))) \<longrightarrow>
      \<not> isl (MakeNode PK Addr Get NewChain NewNetworking credentials cfg0
               :: panic + ('addr, 'sk, 'key, 'net, 'chain) Node)) \<and>
   (length (GroupShares credentials) < length (Groups credentials) \<longrightarrow>
      isl (MakeNode PK Addr Get NewChain NewNetworking credentials cfg0
            :: panic + ('addr, 'sk, 'key, 'net, 'chain) Node)) \<and>
   (\<not> isl (PK (SK credentials)) \<and>
    length (GroupShares credentials) < length (Groups credentials) \<and>
    (\<forall>j<length (GroupShares credentials). \<not> isl (Get (GroupShares credentials ! j))) \<longrightarrow>
      (MakeNode PK Addr Get NewChain NewNetworking credentials cfg0
         :: panic + ('addr, 'sk, 'key, 'net, 'chain) Node)
        = Inl (IndexOutOfRange (length (GroupShares credentials))
                 (length (GroupShares credentials))))"
proof -
  let ?G = "Groups credentials" and ?S = "GroupShares credentials"
  let ?mk = "\<lambda>j. \<lparr>skShare = projr (Get (?S ! j)), groupID = ?G ! j\<rparr>"
  let ?new = "NewNode PK Addr (Some (NewChain cfg0)) (SK credentials) (NewNetworking (NewChain cfg0)) cfg0
                :: panic + ('addr, 'sk, 'key, 'net, 'chain) Node"
  have new_Inr: "\<exists>n0. ?new = Inr n0 \<and> memberships n0 = []" if "\<not> isl (PK (SK credentials))"
    using that by (cases "PK (SK credentials)") (simp_all add: NewNode_def)
  have new_ms: "memberships n0 = []" if "?new = Inr n0" for n0
    using that by (auto simp: NewNode_def split: sum.splits)
  have c1: "length (memberships n) = length ?G \<and>
      (\<forall>j<length ?G. j < length ?S \<and> Get (?S ! j) = Inr (skShare (memberships n ! j)) \<and>
         groupID (memberships n ! j) = ?G ! j)"
    if mk: "MakeNode PK Addr Get NewChain NewNetworking credentials cfg0 = Inr n"
  proof -
    from mk obtain n0 ms where n0: "?new = Inr n0"
      and ms: "MakeNode_loop Get credentials [0..<length ?G] (memberships n0) = Inr ms"
      and n: "n = n0\<lparr>memberships := ms\<rparr>"
      by (auto simp: MakeNode_def Let_def split: sum.splits)
    from MakeNode_loop_Inr [OF ms] new_ms [OF n0]
    have ok: "\<forall>j<length ?G. j < length ?S \<and> \<not> isl (Get (?S ! j))"
      and eq: "ms = map ?mk [0..<length ?G]"
      by simp_all
    have "Get (?S ! j) = Inr (skShare (memberships n ! j))" if "j < length ?G" for j
    proof -
      from ok that have "\<not> isl (Get (?S ! j))" by simp
      then show ?thesis using that by (cases "Get (?S ! j)") (simp_all add: n eq)
    qed
    moreover have "length (memberships n) = length ?G"
      by (simp add: n eq)
    moreover have "groupID (memberships n ! j) = ?G ! j" if "j < length ?G" for j
      using that by (simp add: n eq)
    ultimately show ?thesis using ok by blast
  qed
  have c2: "\<not> isl (MakeNode PK Addr Get NewChain NewNetworking credentials cfg0
               :: panic + ('addr, 'sk, 'key, 'net, 'chain) Node)"
    if "\<not> isl (PK (SK credentials))" "length ?G \<le> length ?S"
       "\<forall>j<length ?G. \<not> isl (Get (?S ! j))"
  proof -
    from new_Inr [OF that(1)] obtain n0 where n0: "?new = Inr n0" "memberships n0 = []"
      by blast
    from that(2,3) have "\<forall>j\<in>set [0..<length ?G]. j < length ?S \<and> \<not> isl (Get (?S ! j))"
      by auto
    from MakeNode_loop_ok [OF this] n0 show ?thesis
      by (simp add: MakeNode_def)
  qed
  have c3: "isl (MakeNode PK Addr Get NewChain NewNetworking credentials cfg0
            :: panic + ('addr, 'sk, 'key, 'net, 'chain) Node)"
    if lt: "length ?S < length ?G"
  proof (cases ?new)
    case (Inl p)
    then show ?thesis by (simp add: MakeNode_def)
  next
    case (Inr n0)
    from lt have "length ?S \<in> set [0..<length ?G]" by simp
    from MakeNode_loop_panics [OF this, of credentials Get "memberships n0"]
    obtain p where "MakeNode_loop Get credentials [0..<length ?G] (memberships n0) = Inl p"
      by (auto simp: isl_def)
    with Inr show ?thesis by (simp add: MakeNode_def)
  qed
  have c4: "(MakeNode PK Addr Get NewChain NewNetworking credentials cfg0
         :: panic + ('addr, 'sk, 'key, 'net, 'chain) Node)
        = Inl (IndexOutOfRange (length ?S) (length ?S))"
    if "\<not> isl (PK (SK credentials))" and lt: "length ?S < length ?G"
       and ok: "\<forall>j<length ?S. \<not> isl (Get (?S ! j))"
  proof -
    from new_Inr [OF that(1)] obtain n0 where n0: "?new = Inr n0" "memberships n0 = []"
      by blast
    from lt have split: "[0..<length ?G] = [0..<length ?S] @ length ?S # [Suc (length ?S)..<length ?G]"
    proof -
      have "[0..<length ?G] = [0..<length ?S + (length ?G - length ?S)]"
        using lt by simp
      also have "\<dots> = [0..<length ?S] @ [length ?S..<length ?S + (length ?G - length ?S)]"
        by (rule upt_add_eq_append) simp
      also have "[length ?S..<length ?S + (length ?G - length ?S)]
                   = length ?S # [Suc (length ?S)..<length ?G]"
        using lt by (simp add: upt_conv_Cons)
      finally show ?thesis .
    qed
    from ok have "\<forall>j\<in>set [0..<length ?S]. j < length ?S \<and> \<not> isl (Get (?S ! j))"
      by simp
    from MakeNode_loop_oob [OF this, of "length ?S"] n0 split show ?thesis
      by (simp add: MakeNode_def)
  qed
  have p1: "MakeNode PK Addr Get NewChain NewNetworking credentials cfg0 = Inr n \<longrightarrow>
      length (memberships n) = length ?G \<and>
      (\<forall>j<length ?G. j < length ?S \<and> Get (?S ! j) = Inr (skShare (memberships n ! j)) \<and>
         groupID (memberships n ! j) = ?G ! j)"
    by (rule impI) (rule c1)
  have p2: "\<not> isl (PK (SK credentials)) \<and> length ?G \<le> length ?S \<and>
      (\<forall>j<length ?G. \<not> isl (Get (?S ! j))) \<longrightarrow>
      \<not> isl (MakeNode PK Addr Get NewChain NewNetworking credentials cfg0
               :: panic + ('addr, 'sk, 'key, 'net, 'chain) Node)"
    using c2 by simp
  have p3: "length ?S < length ?G \<longrightarrow>
      isl (MakeNode PK Addr Get NewChain NewNetworking credentials cfg0
            :: panic + ('addr, 'sk, 'key, 'net, 'chain) Node)"
    by (rule impI) (rule c3)
  have p4: "\<not> isl (PK (SK credentials)) \<and> length ?S < length ?G \<and>
      (\<forall>j<length ?S. \<not> isl (Get (?S ! j))) \<longrightarrow>
      (MakeNode PK Addr Get NewChain NewNetworking credentials cfg0
         :: panic + ('addr, 'sk, 'key, 'net, 'chain) Node)
        = Inl (IndexOutOfRange (length ?S) (length ?S))"
    using c4 by simp
  show ?thesis
    by (rule conjI [OF p1 conjI [OF p2 conjI [OF p3 p4]]])
qed

theorem MakeNode_memberships_witness:
  "(MakeNode (\<lambda>_. Inr (9 :: nat)) (\<lambda>pk. pk) (\<lambda>s. Inr (s + 100)) (\<lambda>_. ()) (\<lambda>_. ())
      \<lparr>SK = 5 :: nat, Groups = [1, 2], GroupShares = [6, 7]\<rparr>
      \<lparr>BlockTime = 1, GroupSize = 3, GroupThreshold = 2\<rparr>
     :: panic + (nat, nat, nat, unit, unit) Node)
    = Inr \<lparr>addr = 9, cfg = \<lparr>BlockTime = 1, GroupSize = 3, GroupThreshold = 2\<rparr>, sk = 5,
           net = (), chain = (),
           memberships = [\<lparr>skShare = 106, groupID = 1\<rparr>, \<lparr>skShare = 107, groupID = 2\<rparr>],
           notarizeChs = [], cancelNotarize = None\<rparr> \<and>
   (MakeNode (\<lambda>_. Inr (9 :: nat)) (\<lambda>pk. pk) (\<lambda>s. Inr (s + 100)) (\<lambda>_. ()) (\<lambda>_. ())
      \<lparr>SK = 5 :: nat, Groups = [1, 2], GroupShares = [6]\<rparr>
      \<lparr>BlockTime = 1, GroupSize = 3, GroupThreshold = 2\<rparr>
     :: panic + (nat, nat, nat, unit, unit) Node)
    = Inl (IndexOutOfRange 1 1)"
  using MakeNode_memberships
    [where PK = "\<lambda>_. Inr (9 :: nat)" and Addr = "\<lambda>pk. pk" and Get = "\<lambda>s. Inr (s + 100)"
       and NewChain = "\<lambda>_. ()" and NewNetworking = "\<lambda>_. ()"
       and credentials = "\<lparr>SK = 5 :: nat, Groups = [1, 2], GroupShares = [6, 7]\<rparr>"
       and ?cfg0.0 = "\<lparr>BlockTime = 1, GroupSize = 3, GroupThreshold = 2\<rparr>"
       and n = "\<lparr>addr = 9, cfg = \<lparr>BlockTime = 1, GroupSize = 3, GroupThreshold = 2\<rparr>, sk = 5,
           net = (), chain = (),
           memberships = [\<lparr>skShare = 106, groupID = 1\<rparr>, \<lparr>skShare = 107, groupID = 2\<rparr>],
           notarizeChs = [], cancelNotarize = None\<rparr>"]
    MakeNode_memberships
    [where PK = "\<lambda>_. Inr (9 :: nat)" and Addr = "\<lambda>pk. pk" and Get = "\<lambda>s. Inr (s + 100)"
       and NewChain = "\<lambda>_. ()" and NewNetworking = "\<lambda>_. ()"
       and credentials = "\<lparr>SK = 5 :: nat, Groups = [1, 2], GroupShares = [6]\<rparr>"
       and ?cfg0.0 = "\<lparr>BlockTime = 1, GroupSize = 3, GroupThreshold = 2\<rparr>"
       and n = "\<lparr>addr = 9, cfg = \<lparr>BlockTime = 1, GroupSize = 3, GroupThreshold = 2\<rparr>, sk = 5,
           net = (), chain = (), memberships = [], notarizeChs = [], cancelNotarize = None\<rparr>"]
  by (simp add: MakeNode_def NewNode_def)

subsection \<open>Ending a round\<close>

lemma EndRound_loop_eq:
  "EndRound_loop rb rnd ms tr =
     tr @ map (\<lambda>m. Go (BeaconShare (skShare m) rnd)) (filter (\<lambda>m. groupID m = rb) ms)"
  by (induction ms arbitrary: tr) simp_all

lemma call_cancel_Some: "call_cancel (Some c) cs = Inr (cs[c := True])"
  by (simp add: call_cancel_def)

lemma EndRound_eq:
  "EndRound committees rnd s =
     Inr (s\<lparr>node := (node s)\<lparr>notarizeChs := []\<rparr>,
            ctxs := (case cancelNotarize (node s) of None \<Rightarrow> ctxs s | Some c \<Rightarrow> (ctxs s)[c := True]),
            trace := trace s @
              map (\<lambda>m. Go (BeaconShare (skShare m) rnd))
                (filter (\<lambda>m. groupID m = fst (committees (chain (node s)) rnd))
                   (memberships (node s)))\<rparr>)"
  by (cases "cancelNotarize (node s)")
     (simp_all add: EndRound_def Let_def call_cancel_Some EndRound_loop_eq split: prod.splits)

lemma BeaconShare_run_Inr:
  "BeaconShare_run Sig SHA3 Get signRandBeaconShare myself n history keyShare rnd = Inr call
     \<longleftrightarrow>
     unat rnd < length history \<and>
     (\<exists>k. Get (sk n) = Inr k \<and>
          call = recvRandBeaconSigShare (net n) (myself (net n))
                   (signRandBeaconShare k keyShare (rnd + 1) (SHA3 (Sig (history ! unat rnd)))))"
  by (auto simp: BeaconShare_run_def Let_def split: sum.splits)

text \<open>
  C1. \<^verbatim>\<open>EndRound(r)\<close> returns, and the goroutines it starts are exactly one for each
  local membership whose group is the random-beacon committee of round \<open>r\<close>, each
  carrying that membership's key share and the round \<open>r\<close>. Every goroutine that
  \<^verbatim>\<open>EndRound(r)\<close> has started ends in a call exactly when the history it reads has an
  entry for \<open>r\<close> and the node key can be retrieved, and the call is then
  \<^verbatim>\<open>n.net.recvRandBeaconSigShare(n.net.myself, s)\<close>, the hand-over of the share to
  the network layer, where \<open>s\<close> is \<^verbatim>\<open>signRandBeaconShare\<close> applied to the node key,
  the key share, round \<open>r + 1\<close> (a \<^verbatim>\<open>uint64\<close> sum) and the SHA3 hash of
  \<^verbatim>\<open>history[r].Sig\<close>.
\<close>

theorem EndRound_signs_next_round:
  "\<exists>s'. EndRound committees rnd s = Inr s' \<and>
     trace s' = trace s @
       map (\<lambda>m. Go (BeaconShare (skShare m) rnd))
         (filter (\<lambda>m. groupID m = fst (committees (chain (node s)) rnd))
            (memberships (node s))) \<and>
     (\<forall>m\<in>set (memberships (node s)).
        groupID m = fst (committees (chain (node s)) rnd) \<longrightarrow>
        Go (BeaconShare (skShare m) rnd) \<in> set (drop (length (trace s)) (trace s'))) \<and>
     (\<forall>keyShare r.
        Go (BeaconShare keyShare r) \<in> set (drop (length (trace s)) (trace s')) \<longrightarrow>
        r = rnd \<and>
        (\<exists>m\<in>set (memberships (node s)).
           groupID m = fst (committees (chain (node s)) rnd) \<and> skShare m = keyShare) \<and>
        (\<forall>call.
           BeaconShare_run Sig SHA3 Get signRandBeaconShare myself (node s') history keyShare r
             = Inr call
           \<longleftrightarrow>
           unat rnd < length history \<and>
           (\<exists>k. Get (sk (node s)) = Inr k \<and>
              call = recvRandBeaconSigShare (net (node s)) (myself (net (node s)))
                       (signRandBeaconShare k keyShare (rnd + 1)
                          (SHA3 (Sig (history ! unat rnd)))))))"
proof -
  let ?rb = "fst (committees (chain (node s)) rnd)"
  let ?new = "map (\<lambda>m. Go (BeaconShare (skShare m) rnd))
                (filter (\<lambda>m. groupID m = ?rb) (memberships (node s)))"
  define s' where "s' = s\<lparr>node := (node s)\<lparr>notarizeChs := []\<rparr>,
       ctxs := (case cancelNotarize (node s) of None \<Rightarrow> ctxs s | Some c \<Rightarrow> (ctxs s)[c := True]),
       trace := trace s @ ?new\<rparr>"
  have e: "EndRound committees rnd s = Inr s'"
    unfolding s'_def by (rule EndRound_eq)
  have tr: "trace s' = trace s @ ?new"
    by (simp add: s'_def)
  have dr: "drop (length (trace s)) (trace s') = ?new"
    by (simp add: tr)
  have nd: "sk (node s') = sk (node s)" "net (node s') = net (node s)"
    by (simp_all add: s'_def)
  have started: "\<forall>m\<in>set (memberships (node s)). groupID m = ?rb \<longrightarrow>
        Go (BeaconShare (skShare m) rnd) \<in> set (drop (length (trace s)) (trace s'))"
    unfolding dr by auto
  have runs: "\<forall>keyShare r.
        Go (BeaconShare keyShare r) \<in> set (drop (length (trace s)) (trace s')) \<longrightarrow>
        r = rnd \<and>
        (\<exists>m\<in>set (memberships (node s)). groupID m = ?rb \<and> skShare m = keyShare) \<and>
        (\<forall>call.
           BeaconShare_run Sig SHA3 Get signRandBeaconShare myself (node s') history keyShare r
             = Inr call
           \<longleftrightarrow>
           unat rnd < length history \<and>
           (\<exists>k. Get (sk (node s)) = Inr k \<and>
              call = recvRandBeaconSigShare (net (node s)) (myself (net (node s)))
                       (signRandBeaconShare k keyShare (rnd + 1)
                          (SHA3 (Sig (history ! unat rnd))))))"
    unfolding dr by (auto simp: BeaconShare_run_Inr nd)
  show ?thesis
    by (rule exI [of _ s']) (rule conjI [OF e conjI [OF tr conjI [OF started runs]]])
qed

theorem EndRound_signs_next_round_witness:
  "\<exists>s'. EndRound (\<lambda>_ _. (1, 2, 3)) 0
      \<lparr>node = \<lparr>addr = 0 :: nat, cfg = \<lparr>BlockTime = 1, GroupSize = 3, GroupThreshold = 2\<rparr>,
               sk = 5 :: nat, net = (), chain = (),
               memberships = [\<lparr>skShare = 7 :: nat, groupID = 1\<rparr>, \<lparr>skShare = 8, groupID = 2\<rparr>],
               notarizeChs = [], cancelNotarize = None\<rparr>,
       chans = ([] :: nat chan list), ctxs = [], trace = []\<rparr> = Inr s' \<and>
     trace s' = [Go (BeaconShare 7 0)] \<and>
     BeaconShare_run (\<lambda>e. e) (\<lambda>b. b) (\<lambda>s. Inr s) (\<lambda>k ks r h. (k, ks, r, h)) (\<lambda>_. ())
        (node s') [[1, 2 :: byte]] 7 0
       = Inr (recvRandBeaconSigShare () () (5, 7, 1, [1, 2]))"
  using EndRound_signs_next_round
    [where rnd = 0 and history = "[[1, 2 :: byte]]" and committees = "\<lambda>_ _. (1, 2, 3)"
       and s = "\<lparr>node = \<lparr>addr = 0 :: nat, cfg = \<lparr>BlockTime = 1, GroupSize = 3, GroupThreshold = 2\<rparr>,
               sk = 5 :: nat, net = (), chain = (),
               memberships = [\<lparr>skShare = 7 :: nat, groupID = 1\<rparr>, \<lparr>skShare = 8, groupID = 2\<rparr>],
               notarizeChs = [], cancelNotarize = None\<rparr>,
       chans = ([] :: nat chan list), ctxs = [], trace = []\<rparr>"
       and Sig = "\<lambda>e. e" and ?SHA3.0 = "\<lambda>b. b" and Get = "\<lambda>s. Inr s"
       and signRandBeaconShare = "\<lambda>k ks r h. (k, ks, r, h)" and myself = "\<lambda>_. ()"]
  by (auto simp: EndRound_def call_cancel_def BeaconShare_run_def)

text \<open>
  C5, as stated, fails: \<^verbatim>\<open>EndRound(0)\<close> on a node in the random-beacon committee
  returns and starts the goroutine, which on an empty history panics at
  \<^verbatim>\<open>history[round]\<close>; nothing recovers the panic, so the process ends.
\<close>

theorem EndRound_missing_history_crashes:
  "EndRound (\<lambda>_ _. (1, 2, 3)) 0
     \<lparr>node = \<lparr>addr = 0 :: nat, cfg = \<lparr>BlockTime = 1, GroupSize = 3, GroupThreshold = 2\<rparr>,
              sk = 5 :: nat, net = (), chain = (),
              memberships = [\<lparr>skShare = 7 :: nat, groupID = 1\<rparr>],
              notarizeChs = [], cancelNotarize = None\<rparr>,
      chans = ([] :: nat chan list), ctxs = [], trace = []\<rparr>
   = Inr \<lparr>node = \<lparr>addr = 0, cfg = \<lparr>BlockTime = 1, GroupSize = 3, GroupThreshold = 2\<rparr>,
              sk = 5, net = (), chain = (),
              memberships = [\<lparr>skShare = 7, groupID = 1\<rparr>],
              notarizeChs = [], cancelNotarize = None\<rparr>,
          chans = [], ctxs = [], trace = [Go (BeaconShare 7 0)]\<rparr> \<and>
   BeaconShare_run (\<lambda>e. e) (\<lambda>b. b) (\<lambda>s. Inr s) (\<lambda>k ks r h. (k, ks, r, h)) (\<lambda>_. ())
     \<lparr>addr = 0 :: nat, cfg = \<lparr>BlockTime = 1, GroupSize = 3, GroupThreshold = 2\<rparr>,
      sk = 5 :: nat, net = (), chain = (),
      memberships = [\<lparr>skShare = 7 :: nat, groupID = 1\<rparr>],
      notarizeChs = [], cancelNotarize = None\<rparr>
     [] (7 :: nat) 0
   = Inl (IndexOutOfRange 0 0)"
  by (simp add: EndRound_def call_cancel_def BeaconShare_run_def)


text \<open>
  C5, amended. When the history has no entry for round \<open>r\<close>, \<^verbatim>\<open>EndRound(r)\<close>
  itself returns, and every goroutine it has started produces no share: it panics with
  an index out of range at \<^verbatim>\<open>history[round]\<close>, before anything is signed or handed
  to the network.
\<close>

theorem EndRound_missing_history_no_share:
  "\<not> unat rnd < length history \<Longrightarrow>
   \<exists>s'. EndRound committees rnd s = Inr s' \<and>
     (\<forall>keyShare.
        BeaconShare_run Sig SHA3 Get signRandBeaconShare myself (node s') history keyShare rnd
          = Inl (IndexOutOfRange (unat rnd) (length history)))"
  by (simp add: EndRound_eq BeaconShare_run_def)

theorem EndRound_missing_history_no_share_witness:
  "\<not> unat (0 :: round) < length ([] :: byte list list) \<and>
   (\<exists>s'. EndRound (\<lambda>_ _. (1, 2, 3)) 0
      \<lparr>node = \<lparr>addr = 0 :: nat, cfg = \<lparr>BlockTime = 1, GroupSize = 3, GroupThreshold = 2\<rparr>,
               sk = 5 :: nat, net = (), chain = (),
               memberships = [\<lparr>skShare = 7 :: nat, groupID = 1\<rparr>],
               notarizeChs = [], cancelNotarize = None\<rparr>,
       chans = ([] :: nat chan list), ctxs = [], trace = []\<rparr> = Inr s' \<and>
      BeaconShare_run (\<lambda>e. e) (\<lambda>b. b) (\<lambda>s. Inr s) (\<lambda>k ks r h. (k, ks, r, h)) (\<lambda>_. ())
        (node s') [] (7 :: nat) 0 = Inl (IndexOutOfRange 0 0))"
  using EndRound_missing_history_no_share
    [where rnd = 0 and history = "[] :: byte list list" and committees = "\<lambda>_ _. (1, 2, 3)"
       and s = "\<lparr>node = \<lparr>addr = 0 :: nat, cfg = \<lparr>BlockTime = 1, GroupSize = 3, GroupThreshold = 2\<rparr>,
               sk = 5 :: nat, net = (), chain = (),
               memberships = [\<lparr>skShare = 7 :: nat, groupID = 1\<rparr>],
               notarizeChs = [], cancelNotarize = None\<rparr>,
       chans = ([] :: nat chan list), ctxs = [], trace = []\<rparr>"
       and Sig = "\<lambda>e. e" and ?SHA3.0 = "\<lambda>b. b" and Get = "\<lambda>s. Inr s"
       and signRandBeaconShare = "\<lambda>k ks r h. (k, ks, r, h)" and myself = "\<lambda>_. ()"]
  by simp blast


text \<open>
  C4. \<^verbatim>\<open>EndRound\<close> never panics. It empties the list of notary input channels and
  changes no other field of the node and no channel. It calls the cancel function only
  if one is stored, and the call only marks the stored context cancelled: with no
  cancel function, or with a context that is cancelled already, no context changes.
  A second \<^verbatim>\<open>EndRound\<close>, for any round, changes neither the node nor a channel nor
  a context.
\<close>

theorem EndRound_discards_and_cancels:
  "\<exists>s'. EndRound committees rnd s = Inr s' \<and>
     node s' = (node s)\<lparr>notarizeChs := []\<rparr> \<and>
     chans s' = chans s \<and>
     ctxs s' = (case cancelNotarize (node s) of
                  None \<Rightarrow> ctxs s
                | Some c \<Rightarrow> (ctxs s)[c := True]) \<and>
     (cancelNotarize (node s) = None \<longrightarrow> ctxs s' = ctxs s) \<and>
     (\<forall>c. cancelNotarize (node s) = Some c \<and> c < length (ctxs s) \<and> ctxs s ! c
          \<longrightarrow> ctxs s' = ctxs s) \<and>
     (\<exists>s''. EndRound committees' rnd' s' = Inr s'' \<and>
        node s'' = node s' \<and> chans s'' = chans s' \<and> ctxs s'' = ctxs s')"
proof -
  let ?cs = "case cancelNotarize (node s) of None \<Rightarrow> ctxs s | Some c \<Rightarrow> (ctxs s)[c := True]"
  let ?tr = "\<lambda>cm r. map (\<lambda>m. Go (BeaconShare (skShare m) r))
                (filter (\<lambda>m. groupID m = fst (cm (chain (node s)) r)) (memberships (node s)))"
  define s' where "s' = s\<lparr>node := (node s)\<lparr>notarizeChs := []\<rparr>, ctxs := ?cs,
                          trace := trace s @ ?tr committees rnd\<rparr>"
  have e1: "EndRound committees rnd s = Inr s'"
    unfolding s'_def by (rule EndRound_eq)
  have n': "node s' = (node s)\<lparr>notarizeChs := []\<rparr>" and ch': "chans s' = chans s"
    and cx': "ctxs s' = ?cs"
    by (simp_all add: s'_def)
  have none: "cancelNotarize (node s) = None \<longrightarrow> ctxs s' = ctxs s"
    using cx' by simp
  have again: "\<forall>c. cancelNotarize (node s) = Some c \<and> c < length (ctxs s) \<and> ctxs s ! c
                 \<longrightarrow> ctxs s' = ctxs s"
    using cx' by (simp add: list_update_same_conv)
  define s'' where "s'' = s'\<lparr>node := (node s')\<lparr>notarizeChs := []\<rparr>,
      ctxs := (case cancelNotarize (node s') of None \<Rightarrow> ctxs s' | Some c \<Rightarrow> (ctxs s')[c := True]),
      trace := trace s' @ map (\<lambda>m. Go (BeaconShare (skShare m) rnd'))
                (filter (\<lambda>m. groupID m = fst (committees' (chain (node s')) rnd'))
                   (memberships (node s')))\<rparr>"
  have e2: "EndRound committees' rnd' s' = Inr s''"
    unfolding s''_def by (rule EndRound_eq)
  have n'': "node s'' = node s'"
    by (simp add: s''_def n')
  have ch'': "chans s'' = chans s'"
    by (simp add: s''_def)
  have cx'': "ctxs s'' = ctxs s'"
    by (cases "cancelNotarize (node s)") (simp_all add: s''_def n' cx')
  have again2: "\<exists>s''. EndRound committees' rnd' s' = Inr s'' \<and>
        node s'' = node s' \<and> chans s'' = chans s' \<and> ctxs s'' = ctxs s'"
    using e2 n'' ch'' cx'' by (intro exI [of _ s'']) simp
  show ?thesis
    by (rule exI [of _ s'])
       (rule conjI [OF e1 conjI [OF n' conjI [OF ch' conjI [OF cx' conjI [OF none conjI [OF again again2]]]]]])
qed

theorem EndRound_discards_and_cancels_witness:
  "\<exists>s'. EndRound (\<lambda>_ _. (1, 2, 3)) 4
      \<lparr>node = \<lparr>addr = 0 :: nat, cfg = \<lparr>BlockTime = 1, GroupSize = 3, GroupThreshold = 2\<rparr>,
               sk = 5 :: nat, net = (), chain = (),
               memberships = [\<lparr>skShare = 7 :: nat, groupID = 3\<rparr>],
               notarizeChs = [0], cancelNotarize = Some 0\<rparr>,
       chans = [\<lparr>cap = 20, buf = [8 :: nat]\<rparr>], ctxs = [True], trace = []\<rparr> = Inr s' \<and>
     notarizeChs (node s') = [] \<and> cancelNotarize (node s') = Some 0 \<and>
     chans s' = [\<lparr>cap = 20, buf = [8]\<rparr>] \<and> ctxs s' = [True] \<and>
     (\<exists>s''. EndRound (\<lambda>_ _. (1, 2, 3)) 4 s' = Inr s'' \<and>
        node s'' = node s' \<and> chans s'' = chans s' \<and> ctxs s'' = ctxs s')"
  using EndRound_discards_and_cancels
    [where committees = "\<lambda>_ _. (1, 2, 3)" and rnd = 4 and committees' = "\<lambda>_ _. (1, 2, 3)"
       and rnd' = 4
       and s = "\<lparr>node = \<lparr>addr = 0 :: nat, cfg = \<lparr>BlockTime = 1, GroupSize = 3, GroupThreshold = 2\<rparr>,
               sk = 5 :: nat, net = (), chain = (),
               memberships = [\<lparr>skShare = 7 :: nat, groupID = 3\<rparr>],
               notarizeChs = [0], cancelNotarize = Some 0\<rparr>,
       chans = [\<lparr>cap = 20, buf = [8 :: nat]\<rparr>], ctxs = [True], trace = []\<rparr>"]
  by auto


text \<open>
  C10. After \<^verbatim>\<open>EndRound\<close> the list of notary input channels is empty, so that
  \<^verbatim>\<open>RecvBlockProposal\<close> returns with every channel, and the whole state, as it was:
  the proposal reaches no notary. \<^verbatim>\<open>EndRound\<close> leaves the memberships, the secret
  key and the chain reference of the node as they were.
\<close>

theorem EndRound_then_RecvBlockProposal:
  "\<exists>s'. EndRound committees rnd s = Inr s' \<and>
     notarizeChs (node s') = [] \<and>
     RecvBlockProposal bp s' = Returns s' \<and>
     memberships (node s') = memberships (node s) \<and>
     sk (node s') = sk (node s) \<and>
     chain (node s') = chain (node s)"
  by (simp add: EndRound_eq RecvBlockProposal_def)

subsection \<open>The loops of RecvBlockProposal and StartRound\<close>

lemma RecvBlockProposal_loop_returns:
  "distinct chs \<Longrightarrow>
   \<forall>ch\<in>set chs. ch < length cs \<and> length (buf (cs ! ch)) < cap (cs ! ch) \<Longrightarrow>
   \<exists>cs'. RecvBlockProposal_loop chs bp cs = Returns cs' \<and> length cs' = length cs \<and>
     (\<forall>i<length cs. cs' ! i =
        (if i \<in> set chs then (cs ! i)\<lparr>buf := buf (cs ! i) @ [bp]\<rparr> else cs ! i))"
proof (induction chs arbitrary: cs)
  case Nil
  then show ?case by simp
next
  case (Cons ch chs)
  let ?cs1 = "cs[ch := (cs ! ch)\<lparr>buf := buf (cs ! ch) @ [bp]\<rparr>]"
  from Cons.prems have room: "ch < length cs" "length (buf (cs ! ch)) < cap (cs ! ch)"
    and notin: "ch \<notin> set chs" and dist: "distinct chs"
    by simp_all
  have "\<forall>c\<in>set chs. c < length ?cs1 \<and> length (buf (?cs1 ! c)) < cap (?cs1 ! c)"
    using Cons.prems(2) notin by (auto simp: nth_list_update)
  from Cons.IH [OF dist this] obtain cs' where
    r: "RecvBlockProposal_loop chs bp ?cs1 = Returns cs'" and l: "length cs' = length cs"
    and e: "\<forall>i<length cs. cs' ! i =
        (if i \<in> set chs then (?cs1 ! i)\<lparr>buf := buf (?cs1 ! i) @ [bp]\<rparr> else ?cs1 ! i)"
    by auto
  have "cs' ! i = (if i \<in> set (ch # chs) then (cs ! i)\<lparr>buf := buf (cs ! i) @ [bp]\<rparr> else cs ! i)"
    if "i < length cs" for i
    using e that notin room(1) by (auto simp: nth_list_update)
  with r l room show ?case by simp
qed

lemma RecvBlockProposal_loop_blocks:
  "distinct (pre @ [ch]) \<Longrightarrow>
   \<forall>c\<in>set pre. c < length cs \<and> length (buf (cs ! c)) < cap (cs ! c) \<Longrightarrow>
   \<not> (ch < length cs \<and> length (buf (cs ! ch)) < cap (cs ! ch)) \<Longrightarrow>
   \<exists>cs'. RecvBlockProposal_loop (pre @ ch # post) bp cs = Blocks cs' \<and> length cs' = length cs \<and>
     (\<forall>i<length cs. cs' ! i =
        (if i \<in> set pre then (cs ! i)\<lparr>buf := buf (cs ! i) @ [bp]\<rparr> else cs ! i))"
proof (induction pre arbitrary: cs)
  case Nil
  then show ?case by auto
next
  case (Cons c pre)
  let ?cs1 = "cs[c := (cs ! c)\<lparr>buf := buf (cs ! c) @ [bp]\<rparr>]"
  from Cons.prems have room: "c < length cs" "length (buf (cs ! c)) < cap (cs ! c)"
    and notin: "c \<notin> set pre" "c \<noteq> ch" and dist: "distinct (pre @ [ch])"
    by auto
  have a: "\<forall>d\<in>set pre. d < length ?cs1 \<and> length (buf (?cs1 ! d)) < cap (?cs1 ! d)"
    using Cons.prems(2) notin by (auto simp: nth_list_update)
  have b: "\<not> (ch < length ?cs1 \<and> length (buf (?cs1 ! ch)) < cap (?cs1 ! ch))"
    using Cons.prems(3) notin by (auto simp: nth_list_update)
  from Cons.IH [OF dist a b] obtain cs' where
    r: "RecvBlockProposal_loop (pre @ ch # post) bp ?cs1 = Blocks cs'" and l: "length cs' = length cs"
    and e: "\<forall>i<length cs. cs' ! i =
        (if i \<in> set pre then (?cs1 ! i)\<lparr>buf := buf (?cs1 ! i) @ [bp]\<rparr> else ?cs1 ! i)"
    by auto
  have "cs' ! i = (if i \<in> set (c # pre) then (cs ! i)\<lparr>buf := buf (cs ! i) @ [bp]\<rparr> else cs ! i)"
    if "i < length cs" for i
    using e that notin room(1) by (auto simp: nth_list_update)
  with r l room show ?case by simp
qed


lemma StartRound_body_node:
  "StartRound_body ProposeBlock Get bp nt m s c = Inr (s', c') \<Longrightarrow>
     chain (node s') = chain (node s) \<and> sk (node s') = sk (node s) \<and>
     net (node s') = net (node s) \<and> memberships (node s') = memberships (node s)"
  by (auto simp: StartRound_body_def Let_def split: if_splits option.splits sum.splits)

lemma StartRound_body_trace:
  "StartRound_body ProposeBlock Get bp nt m s c = Inr (s', c') \<Longrightarrow>
     \<exists>new. trace s' = trace s @ new \<and>
       filter (\<lambda>e. case e of Go (Notarize _ _ _ _) \<Rightarrow> False | _ \<Rightarrow> True) new =
         (if groupID m = bp
          then [Call_ProposeBlock (chain (node s)) (sk (node s)),
                Go (Propose (ProposeBlock (chain (node s)) (sk (node s))))]
          else [])"
  by (auto simp: StartRound_body_def Let_def split: if_splits option.splits sum.splits)

lemma StartRound_body_chans:
  "StartRound_body ProposeBlock Get bp nt m s c = Inr (s', c') \<Longrightarrow>
     chans s' = chans s @ replicate (if groupID m = nt then 1 else 0) \<lparr>cap = 20, buf = []\<rparr> \<and>
     notarizeChs (node s') =
       notarizeChs (node s) @
         [length (chans s)..<length (chans s) + (if groupID m = nt then 1 else 0)]"
  by (auto simp: StartRound_body_def Let_def split: if_splits option.splits sum.splits)

lemma StartRound_body_returns:
  "Get (sk (node s)) = Inr k \<Longrightarrow>
   \<exists>s' c'. StartRound_body ProposeBlock Get bp nt m s c = Inr (s', c')"
  by (auto simp: StartRound_body_def Let_def split: if_splits option.splits sum.splits)

lemma StartRound_loop_trace:
  "StartRound_loop ProposeBlock Get bp nt ms s c = Inr (s', c') \<Longrightarrow>
     chain (node s') = chain (node s) \<and> sk (node s') = sk (node s) \<and>
     net (node s') = net (node s) \<and> memberships (node s') = memberships (node s) \<and>
     (\<exists>new. trace s' = trace s @ new \<and>
        filter (\<lambda>e. case e of Go (Notarize _ _ _ _) \<Rightarrow> False | _ \<Rightarrow> True) new =
          concat (map (\<lambda>m. [Call_ProposeBlock (chain (node s)) (sk (node s)),
                             Go (Propose (ProposeBlock (chain (node s)) (sk (node s))))])
                    (filter (\<lambda>m. groupID m = bp) ms)))"
proof (induction ms arbitrary: s c)
  case Nil
  then show ?case by simp
next
  case (Cons m ms)
  let ?P = "\<lambda>e. case e of Go (Notarize _ _ _ _) \<Rightarrow> False | _ \<Rightarrow> True"
  from Cons.prems obtain s1 c1 where
    b: "StartRound_body ProposeBlock Get bp nt m s c = Inr (s1, c1)"
    and l: "StartRound_loop ProposeBlock Get bp nt ms s1 c1 = Inr (s', c')"
    by (auto split: sum.splits)
  note n1 = StartRound_body_node [OF b]
  from StartRound_body_trace [OF b] obtain new1 where
    t1: "trace s1 = trace s @ new1"
    and f1: "filter ?P new1 =
         (if groupID m = bp
          then [Call_ProposeBlock (chain (node s)) (sk (node s)),
                Go (Propose (ProposeBlock (chain (node s)) (sk (node s))))]
          else [])"
    by blast
  from Cons.IH [OF l] obtain new2 where
    n2: "chain (node s') = chain (node s1)" "sk (node s') = sk (node s1)"
        "net (node s') = net (node s1)" "memberships (node s') = memberships (node s1)"
    and t2: "trace s' = trace s1 @ new2"
    and f2: "filter ?P new2 =
          concat (map (\<lambda>m. [Call_ProposeBlock (chain (node s1)) (sk (node s1)),
                             Go (Propose (ProposeBlock (chain (node s1)) (sk (node s1))))])
                    (filter (\<lambda>m. groupID m = bp) ms))"
    by blast
  have tt: "trace s' = trace s @ (new1 @ new2)"
    by (simp add: t1 t2)
  have ff: "filter ?P (new1 @ new2) =
          concat (map (\<lambda>m. [Call_ProposeBlock (chain (node s)) (sk (node s)),
                             Go (Propose (ProposeBlock (chain (node s)) (sk (node s))))])
                    (filter (\<lambda>m. groupID m = bp) (m # ms)))"
    using f1 f2 n1 by simp
  have "\<exists>new. trace s' = trace s @ new \<and>
        filter ?P new =
          concat (map (\<lambda>m. [Call_ProposeBlock (chain (node s)) (sk (node s)),
                             Go (Propose (ProposeBlock (chain (node s)) (sk (node s))))])
                    (filter (\<lambda>m. groupID m = bp) (m # ms)))"
    by (rule exI [of _ "new1 @ new2"]) (rule conjI [OF tt ff])
  with n1 n2 show ?case
    by simp
qed

lemma StartRound_loop_chans:
  "StartRound_loop ProposeBlock Get bp nt ms s c = Inr (s', c') \<Longrightarrow>
     chans s' = chans s @
       replicate (length (filter (\<lambda>m. groupID m = nt) ms)) \<lparr>cap = 20, buf = []\<rparr> \<and>
     notarizeChs (node s') =
       notarizeChs (node s) @
         [length (chans s)..<length (chans s) + length (filter (\<lambda>m. groupID m = nt) ms)]"
proof (induction ms arbitrary: s c)
  case Nil
  then show ?case by simp
next
  case (Cons m ms)
  from Cons.prems obtain s1 c1 where
    b: "StartRound_body ProposeBlock Get bp nt m s c = Inr (s1, c1)"
    and l: "StartRound_loop ProposeBlock Get bp nt ms s1 c1 = Inr (s', c')"
    by (auto split: sum.splits)
  show ?case
  proof (cases "groupID m = nt")
    case True
    let ?k = "length (filter (\<lambda>m. groupID m = nt) ms)" and ?n = "length (chans s)"
    from True StartRound_body_chans [OF b]
    have s1: "chans s1 = chans s @ [\<lparr>cap = 20, buf = []\<rparr>]"
      "notarizeChs (node s1) = notarizeChs (node s) @ [?n]"
      by simp_all
    from Cons.IH [OF l] s1
    have s': "chans s' = chans s @ \<lparr>cap = 20, buf = []\<rparr> # replicate ?k \<lparr>cap = 20, buf = []\<rparr>"
      "notarizeChs (node s') = notarizeChs (node s) @ ?n # [Suc ?n..<Suc ?n + ?k]"
      by simp_all
    have "[?n..<?n + Suc ?k] = ?n # [Suc ?n..<Suc ?n + ?k]"
      by (simp add: upt_conv_Cons del: upt_Suc)
    with s' True show ?thesis
      by (simp del: upt_Suc)
  next
    case False
    with StartRound_body_chans [OF b] Cons.IH [OF l] show ?thesis
      by simp
  qed
qed

lemma StartRound_loop_returns:
  "Get (sk (node s)) = Inr k \<Longrightarrow>
   \<exists>s' c'. StartRound_loop ProposeBlock Get bp nt ms s c = Inr (s', c')"
proof (induction ms arbitrary: s c)
  case Nil
  then show ?case by simp
next
  case (Cons m ms)
  from StartRound_body_returns [of Get s k ProposeBlock bp nt m c] Cons.prems
  obtain s1 c1 where
    b: "StartRound_body ProposeBlock Get bp nt m s c = Inr (s1, c1)"
    by blast
  from StartRound_body_node [OF b] Cons.prems have "Get (sk (node s1)) = Inr k"
    by simp
  from Cons.IH [OF this] b show ?case by simp
qed

subsection \<open>Receiving a block proposal\<close>

text \<open>
  C2, as stated, fails. A node in the notary committee starts a round, which gives it
  one notary input channel; 20 proposals are queued in that channel and its notary
  reads none of them; the node starts the next round before the first has ended, which
  gives it a second channel. \<^verbatim>\<open>RecvBlockProposal\<close> then stays blocked in its first
  send: the proposal reaches neither channel, and the notary of the second channel is
  kept waiting by the first.
\<close>

theorem RecvBlockProposal_blocks_on_full_channel:
  "StartRound (\<lambda>_ _. (1, 2, 3)) (\<lambda>_ _. 99 :: nat) (\<lambda>s. Inr s) 0
     \<lparr>node = \<lparr>addr = 0 :: nat, cfg = \<lparr>BlockTime = 1, GroupSize = 3, GroupThreshold = 2\<rparr>,
              sk = 5 :: nat, net = (), chain = (),
              memberships = [\<lparr>skShare = 7 :: nat, groupID = 3\<rparr>],
              notarizeChs = [], cancelNotarize = None\<rparr>,
      chans = ([] :: nat chan list),
      ctxs = [],
      trace = []\<rparr>
   = Inr
     \<lparr>node = \<lparr>addr = 0 :: nat, cfg = \<lparr>BlockTime = 1, GroupSize = 3, GroupThreshold = 2\<rparr>,
              sk = 5 :: nat, net = (), chain = (),
              memberships = [\<lparr>skShare = 7 :: nat, groupID = 3\<rparr>],
              notarizeChs = [0], cancelNotarize = Some 0\<rparr>,
      chans = [\<lparr>cap = 20, buf = [] :: nat list\<rparr>],
      ctxs = [False],
      trace = [Go (Notarize (NewNotary 0 5 7 ()) 1 0 0)]\<rparr> \<and>
   StartRound (\<lambda>_ _. (1, 2, 3)) (\<lambda>_ _. 99 :: nat) (\<lambda>s. Inr s) 1
     \<lparr>node = \<lparr>addr = 0 :: nat, cfg = \<lparr>BlockTime = 1, GroupSize = 3, GroupThreshold = 2\<rparr>,
              sk = 5 :: nat, net = (), chain = (),
              memberships = [\<lparr>skShare = 7 :: nat, groupID = 3\<rparr>],
              notarizeChs = [0], cancelNotarize = Some 0\<rparr>,
      chans = [\<lparr>cap = 20, buf = replicate 20 (0 :: nat)\<rparr>],
      ctxs = [False],
      trace = [Go (Notarize (NewNotary 0 5 7 ()) 1 0 0)]\<rparr>
   = Inr
     \<lparr>node = \<lparr>addr = 0 :: nat, cfg = \<lparr>BlockTime = 1, GroupSize = 3, GroupThreshold = 2\<rparr>,
              sk = 5 :: nat, net = (), chain = (),
              memberships = [\<lparr>skShare = 7 :: nat, groupID = 3\<rparr>],
              notarizeChs = [0, 1], cancelNotarize = Some 1\<rparr>,
      chans = [\<lparr>cap = 20, buf = replicate 20 (0 :: nat)\<rparr>, \<lparr>cap = 20, buf = []\<rparr>],
      ctxs = [False, False],
      trace = [Go (Notarize (NewNotary 0 5 7 ()) 1 0 0),
               Go (Notarize (NewNotary 0 5 7 ()) 1 1 1)]\<rparr> \<and>
   RecvBlockProposal (1 :: nat)
     \<lparr>node = \<lparr>addr = 0 :: nat, cfg = \<lparr>BlockTime = 1, GroupSize = 3, GroupThreshold = 2\<rparr>,
              sk = 5 :: nat, net = (), chain = (),
              memberships = [\<lparr>skShare = 7 :: nat, groupID = 3\<rparr>],
              notarizeChs = [0, 1], cancelNotarize = Some 1\<rparr>,
      chans = [\<lparr>cap = 20, buf = replicate 20 (0 :: nat)\<rparr>, \<lparr>cap = 20, buf = []\<rparr>],
      ctxs = [False, False],
      trace = [Go (Notarize (NewNotary 0 5 7 ()) 1 0 0),
               Go (Notarize (NewNotary 0 5 7 ()) 1 1 1)]\<rparr>
   = Blocks
     \<lparr>node = \<lparr>addr = 0 :: nat, cfg = \<lparr>BlockTime = 1, GroupSize = 3, GroupThreshold = 2\<rparr>,
              sk = 5 :: nat, net = (), chain = (),
              memberships = [\<lparr>skShare = 7 :: nat, groupID = 3\<rparr>],
              notarizeChs = [0, 1], cancelNotarize = Some 1\<rparr>,
      chans = [\<lparr>cap = 20, buf = replicate 20 (0 :: nat)\<rparr>, \<lparr>cap = 20, buf = []\<rparr>],
      ctxs = [False, False],
      trace = [Go (Notarize (NewNotary 0 5 7 ()) 1 0 0),
               Go (Notarize (NewNotary 0 5 7 ()) 1 1 1)]\<rparr>"
  by (simp add: StartRound_def StartRound_body_def RecvBlockProposal_def)

text \<open>
  C2, amended. \<^verbatim>\<open>RecvBlockProposal\<close> sends the proposal on the notary input channels
  in the order of the list. While every channel has room, it returns with the proposal
  appended to the queue of each channel of the list and nothing else changed. At the
  first channel that is full it blocks, with the proposal appended to the channels
  before it and to no other. Every channel that \<^verbatim>\<open>_StartRound\<close> adds to the list is
  new, empty and of capacity 20, one for each local membership in the notary
  committee.
\<close>

theorem RecvBlockProposal_delivers_or_blocks:
  "(distinct (notarizeChs (node s)) \<and>
    (\<forall>ch\<in>set (notarizeChs (node s)).
       ch < length (chans s) \<and> length (buf (chans s ! ch)) < cap (chans s ! ch)) \<longrightarrow>
    (\<exists>s'. RecvBlockProposal bp s = Returns s' \<and> node s' = node s \<and>
       length (chans s') = length (chans s) \<and>
       (\<forall>i<length (chans s). chans s' ! i =
          (if i \<in> set (notarizeChs (node s))
           then (chans s ! i)\<lparr>buf := buf (chans s ! i) @ [bp]\<rparr> else chans s ! i)))) \<and>
   (notarizeChs (node s) = pre @ ch # post \<and> distinct (pre @ [ch]) \<and>
    (\<forall>c\<in>set pre. c < length (chans s) \<and> length (buf (chans s ! c)) < cap (chans s ! c)) \<and>
    \<not> (ch < length (chans s) \<and> length (buf (chans s ! ch)) < cap (chans s ! ch)) \<longrightarrow>
    (\<exists>s'. RecvBlockProposal bp s = Blocks s' \<and> node s' = node s \<and>
       length (chans s') = length (chans s) \<and>
       (\<forall>i<length (chans s). chans s' ! i =
          (if i \<in> set pre
           then (chans s ! i)\<lparr>buf := buf (chans s ! i) @ [bp]\<rparr> else chans s ! i)))) \<and>
   (StartRound committees ProposeBlock Get rnd s = Inr s1 \<longrightarrow>
    chans s1 = chans s @
      replicate (length (filter (\<lambda>m. groupID m = snd (snd (committees (chain (node s)) rnd)))
                           (memberships (node s))))
        \<lparr>cap = 20, buf = []\<rparr> \<and>
    notarizeChs (node s1) = notarizeChs (node s) @
      [length (chans s)..<length (chans s) +
         length (filter (\<lambda>m. groupID m = snd (snd (committees (chain (node s)) rnd)))
                   (memberships (node s)))])"
proof -
  have p1: "distinct (notarizeChs (node s)) \<and>
    (\<forall>ch\<in>set (notarizeChs (node s)).
       ch < length (chans s) \<and> length (buf (chans s ! ch)) < cap (chans s ! ch)) \<longrightarrow>
    (\<exists>s'. RecvBlockProposal bp s = Returns s' \<and> node s' = node s \<and>
       length (chans s') = length (chans s) \<and>
       (\<forall>i<length (chans s). chans s' ! i =
          (if i \<in> set (notarizeChs (node s))
           then (chans s ! i)\<lparr>buf := buf (chans s ! i) @ [bp]\<rparr> else chans s ! i)))"
  proof
    assume a: "distinct (notarizeChs (node s)) \<and>
    (\<forall>ch\<in>set (notarizeChs (node s)).
       ch < length (chans s) \<and> length (buf (chans s ! ch)) < cap (chans s ! ch))"
    from RecvBlockProposal_loop_returns [of "notarizeChs (node s)" "chans s" bp] a
  obtain cs' where "RecvBlockProposal_loop (notarizeChs (node s)) bp (chans s) = Returns cs'"
    "length cs' = length (chans s)"
    "\<forall>i<length (chans s). cs' ! i =
        (if i \<in> set (notarizeChs (node s))
         then (chans s ! i)\<lparr>buf := buf (chans s ! i) @ [bp]\<rparr> else chans s ! i)"
    by blast
    then show "\<exists>s'. RecvBlockProposal bp s = Returns s' \<and> node s' = node s \<and>
       length (chans s') = length (chans s) \<and>
       (\<forall>i<length (chans s). chans s' ! i =
          (if i \<in> set (notarizeChs (node s))
           then (chans s ! i)\<lparr>buf := buf (chans s ! i) @ [bp]\<rparr> else chans s ! i))"
      by (simp add: RecvBlockProposal_def)
  qed
  have p2: "notarizeChs (node s) = pre @ ch # post \<and> distinct (pre @ [ch]) \<and>
    (\<forall>c\<in>set pre. c < length (chans s) \<and> length (buf (chans s ! c)) < cap (chans s ! c)) \<and>
    \<not> (ch < length (chans s) \<and> length (buf (chans s ! ch)) < cap (chans s ! ch)) \<longrightarrow>
    (\<exists>s'. RecvBlockProposal bp s = Blocks s' \<and> node s' = node s \<and>
       length (chans s') = length (chans s) \<and>
       (\<forall>i<length (chans s). chans s' ! i =
          (if i \<in> set pre
           then (chans s ! i)\<lparr>buf := buf (chans s ! i) @ [bp]\<rparr> else chans s ! i)))"
  proof
    assume a: "notarizeChs (node s) = pre @ ch # post \<and> distinct (pre @ [ch]) \<and>
    (\<forall>c\<in>set pre. c < length (chans s) \<and> length (buf (chans s ! c)) < cap (chans s ! c)) \<and>
    \<not> (ch < length (chans s) \<and> length (buf (chans s ! ch)) < cap (chans s ! ch))"
    from RecvBlockProposal_loop_blocks [of pre ch "chans s" post bp] a
  obtain cs' where "RecvBlockProposal_loop (pre @ ch # post) bp (chans s) = Blocks cs'"
    "length cs' = length (chans s)"
    "\<forall>i<length (chans s). cs' ! i =
        (if i \<in> set pre then (chans s ! i)\<lparr>buf := buf (chans s ! i) @ [bp]\<rparr> else chans s ! i)"
    by blast
    with a show "\<exists>s'. RecvBlockProposal bp s = Blocks s' \<and> node s' = node s \<and>
       length (chans s') = length (chans s) \<and>
       (\<forall>i<length (chans s). chans s' ! i =
          (if i \<in> set pre
           then (chans s ! i)\<lparr>buf := buf (chans s ! i) @ [bp]\<rparr> else chans s ! i))"
      by (simp add: RecvBlockProposal_def)
  qed
  have p3: "StartRound committees ProposeBlock Get rnd s = Inr s1 \<longrightarrow>
    chans s1 = chans s @
      replicate (length (filter (\<lambda>m. groupID m = snd (snd (committees (chain (node s)) rnd)))
                           (memberships (node s))))
        \<lparr>cap = 20, buf = []\<rparr> \<and>
    notarizeChs (node s1) = notarizeChs (node s) @
      [length (chans s)..<length (chans s) +
         length (filter (\<lambda>m. groupID m = snd (snd (committees (chain (node s)) rnd)))
                   (memberships (node s)))]"
  proof
    assume sr: "StartRound committees ProposeBlock Get rnd s = Inr s1"
    obtain rb bp nt where c: "committees (chain (node s)) rnd = (rb, bp, nt)"
      by (cases "committees (chain (node s)) rnd") auto
    from sr c obtain c' where
      "StartRound_loop ProposeBlock Get bp nt (memberships (node s)) s None = Inr (s1, c')"
      by (auto simp: StartRound_def split: sum.splits)
    from StartRound_loop_chans [OF this] c
    show "chans s1 = chans s @
      replicate (length (filter (\<lambda>m. groupID m = snd (snd (committees (chain (node s)) rnd)))
                           (memberships (node s))))
        \<lparr>cap = 20, buf = []\<rparr> \<and>
    notarizeChs (node s1) = notarizeChs (node s) @
      [length (chans s)..<length (chans s) +
         length (filter (\<lambda>m. groupID m = snd (snd (committees (chain (node s)) rnd)))
                   (memberships (node s)))]"
      by simp
  qed
  show ?thesis
    by (rule conjI [OF p1 conjI [OF p2 p3]])
qed

theorem RecvBlockProposal_delivers_or_blocks_witness:
  "RecvBlockProposal (1 :: nat)
     \<lparr>node = \<lparr>addr = 0 :: nat, cfg = \<lparr>BlockTime = 1, GroupSize = 3, GroupThreshold = 2\<rparr>,
              sk = 5 :: nat, net = (), chain = (),
              memberships = [\<lparr>skShare = 7 :: nat, groupID = 3\<rparr>],
              notarizeChs = [0, 1], cancelNotarize = Some 0\<rparr>,
      chans = [\<lparr>cap = 20, buf = [8 :: nat]\<rparr>, \<lparr>cap = 20, buf = []\<rparr>],
      ctxs = [False], trace = []\<rparr>
   = Returns
     \<lparr>node = \<lparr>addr = 0 :: nat, cfg = \<lparr>BlockTime = 1, GroupSize = 3, GroupThreshold = 2\<rparr>,
              sk = 5 :: nat, net = (), chain = (),
              memberships = [\<lparr>skShare = 7 :: nat, groupID = 3\<rparr>],
              notarizeChs = [0, 1], cancelNotarize = Some 0\<rparr>,
      chans = [\<lparr>cap = 20, buf = [8 :: nat, 1]\<rparr>, \<lparr>cap = 20, buf = [1]\<rparr>],
      ctxs = [False], trace = []\<rparr> \<and>
   RecvBlockProposal (1 :: nat)
     \<lparr>node = \<lparr>addr = 0 :: nat, cfg = \<lparr>BlockTime = 1, GroupSize = 3, GroupThreshold = 2\<rparr>,
              sk = 5 :: nat, net = (), chain = (),
              memberships = [\<lparr>skShare = 7 :: nat, groupID = 3\<rparr>],
              notarizeChs = [0, 1], cancelNotarize = Some 0\<rparr>,
      chans = [\<lparr>cap = 20, buf = [] :: nat list\<rparr>, \<lparr>cap = 20, buf = replicate 20 0\<rparr>],
      ctxs = [False], trace = []\<rparr>
   = Blocks
     \<lparr>node = \<lparr>addr = 0 :: nat, cfg = \<lparr>BlockTime = 1, GroupSize = 3, GroupThreshold = 2\<rparr>,
              sk = 5 :: nat, net = (), chain = (),
              memberships = [\<lparr>skShare = 7 :: nat, groupID = 3\<rparr>],
              notarizeChs = [0, 1], cancelNotarize = Some 0\<rparr>,
      chans = [\<lparr>cap = 20, buf = [1 :: nat]\<rparr>, \<lparr>cap = 20, buf = replicate 20 0\<rparr>],
      ctxs = [False], trace = []\<rparr> \<and>
   StartRound (\<lambda>_ _. (1, 2, 3)) (\<lambda>_ _. 99 :: nat) (\<lambda>s. Inr s) 0
     \<lparr>node = \<lparr>addr = 0 :: nat, cfg = \<lparr>BlockTime = 1, GroupSize = 3, GroupThreshold = 2\<rparr>,
              sk = 5 :: nat, net = (), chain = (),
              memberships = [\<lparr>skShare = 7 :: nat, groupID = 3\<rparr>],
              notarizeChs = [], cancelNotarize = None\<rparr>,
      chans = ([] :: nat chan list),
      ctxs = [], trace = []\<rparr>
   = Inr
     \<lparr>node = \<lparr>addr = 0 :: nat, cfg = \<lparr>BlockTime = 1, GroupSize = 3, GroupThreshold = 2\<rparr>,
              sk = 5 :: nat, net = (), chain = (),
              memberships = [\<lparr>skShare = 7 :: nat, groupID = 3\<rparr>],
              notarizeChs = [0], cancelNotarize = Some 0\<rparr>,
      chans = [\<lparr>cap = 20, buf = [] :: nat list\<rparr>],
      ctxs = [False], trace = [Go (Notarize (NewNotary 0 5 7 ()) 1 0 0)]\<rparr>"
  using RecvBlockProposal_delivers_or_blocks
    [where bp = "1 :: nat"
       and s = "\<lparr>node = \<lparr>addr = 0 :: nat, cfg = \<lparr>BlockTime = 1, GroupSize = 3, GroupThreshold = 2\<rparr>,
              sk = 5 :: nat, net = (), chain = (),
              memberships = [\<lparr>skShare = 7 :: nat, groupID = 3\<rparr>],
              notarizeChs = [0, 1], cancelNotarize = Some 0\<rparr>,
      chans = [\<lparr>cap = 20, buf = [8 :: nat]\<rparr>, \<lparr>cap = 20, buf = []\<rparr>],
      ctxs = [False], trace = []\<rparr>"]
    RecvBlockProposal_delivers_or_blocks
    [where bp = "1 :: nat" and pre = "[0]" and ch = 1 and post = "[]"
       and s = "\<lparr>node = \<lparr>addr = 0 :: nat, cfg = \<lparr>BlockTime = 1, GroupSize = 3, GroupThreshold = 2\<rparr>,
              sk = 5 :: nat, net = (), chain = (),
              memberships = [\<lparr>skShare = 7 :: nat, groupID = 3\<rparr>],
              notarizeChs = [0, 1], cancelNotarize = Some 0\<rparr>,
      chans = [\<lparr>cap = 20, buf = [] :: nat list\<rparr>, \<lparr>cap = 20, buf = replicate 20 0\<rparr>],
      ctxs = [False], trace = []\<rparr>"]
    RecvBlockProposal_delivers_or_blocks
    [where committees = "\<lambda>_ _. (1, 2, 3)" and ProposeBlock = "\<lambda>_ _. 99 :: nat"
       and Get = "\<lambda>s. Inr s" and rnd = 0
       and s = "\<lparr>node = \<lparr>addr = 0 :: nat, cfg = \<lparr>BlockTime = 1, GroupSize = 3, GroupThreshold = 2\<rparr>,
              sk = 5 :: nat, net = (), chain = (),
              memberships = [\<lparr>skShare = 7 :: nat, groupID = 3\<rparr>],
              notarizeChs = [], cancelNotarize = None\<rparr>,
      chans = ([] :: nat chan list),
      ctxs = [], trace = []\<rparr>"
       and ?s1.0 = "\<lparr>node = \<lparr>addr = 0 :: nat, cfg = \<lparr>BlockTime = 1, GroupSize = 3, GroupThreshold = 2\<rparr>,
              sk = 5 :: nat, net = (), chain = (),
              memberships = [\<lparr>skShare = 7 :: nat, groupID = 3\<rparr>],
              notarizeChs = [0], cancelNotarize = Some 0\<rparr>,
      chans = [\<lparr>cap = 20, buf = [] :: nat list\<rparr>],
      ctxs = [False], trace = [Go (Notarize (NewNotary 0 5 7 ()) 1 0 0)]\<rparr>"]
  by (simp add: RecvBlockProposal_def StartRound_def StartRound_body_def)

subsection \<open>Starting a round\<close>

text \<open>
  C3, as stated, fails: for a membership in the proposer committee the trace of
  \<^verbatim>\<open>_StartRound\<close> holds the call of \<^verbatim>\<open>ProposeBlock\<close> by the caller's own thread,
  made while the lock is held, before the goroutine is started; the goroutine is
  started with the proposal already built.
\<close>

theorem StartRound_builds_proposal_in_caller:
  "StartRound (\<lambda>_ _. (1, 2, 3)) (\<lambda>_ _. 99 :: nat) (\<lambda>s. Inr s) 0
     \<lparr>node = \<lparr>addr = 0 :: nat, cfg = \<lparr>BlockTime = 1, GroupSize = 3, GroupThreshold = 2\<rparr>,
              sk = 5 :: nat, net = (), chain = (),
              memberships = [\<lparr>skShare = 7 :: nat, groupID = 2\<rparr>],
              notarizeChs = [], cancelNotarize = None\<rparr>,
      chans = ([] :: nat chan list), ctxs = [], trace = []\<rparr>
   = Inr
     \<lparr>node = \<lparr>addr = 0 :: nat, cfg = \<lparr>BlockTime = 1, GroupSize = 3, GroupThreshold = 2\<rparr>,
              sk = 5 :: nat, net = (), chain = (),
              memberships = [\<lparr>skShare = 7 :: nat, groupID = 2\<rparr>],
              notarizeChs = [], cancelNotarize = None\<rparr>,
      chans = ([] :: nat chan list), ctxs = [],
      trace = [Call_ProposeBlock () 5, Go (Propose 99)]\<rparr>"
  by (simp add: StartRound_def StartRound_body_def)


text \<open>
  C3, amended. For each local membership in the proposer committee, in order,
  \<^verbatim>\<open>_StartRound\<close> calls \<^verbatim>\<open>ProposeBlock\<close> in the caller's thread and then starts a
  goroutine with the proposal returned; apart from the notary goroutines these are all
  the events it adds to the trace. Each such goroutine calls
  \<^verbatim>\<open>n.net.recvBlockProposal(n.net.myself, bp)\<close> with that proposal: only the broadcast
  is asynchronous. \<^verbatim>\<open>_StartRound\<close> returns whenever the node key can be retrieved.
\<close>

theorem StartRound_builds_then_broadcasts:
  "(StartRound committees ProposeBlock Get rnd
      (s :: ('addr, 'sk, 'key, 'net, 'chain, 'bp) state) = Inr s' \<longrightarrow>
      (\<exists>new. trace s' = trace s @ new \<and>
         filter (\<lambda>e. case e of Go (Notarize _ _ _ _) \<Rightarrow> False | _ \<Rightarrow> True) new =
           concat (map (\<lambda>m. [Call_ProposeBlock (chain (node s)) (sk (node s)),
                              Go (Propose (ProposeBlock (chain (node s)) (sk (node s))))])
                     (filter (\<lambda>m. groupID m = fst (snd (committees (chain (node s)) rnd)))
                        (memberships (node s)))) \<and>
         (\<forall>p. Go (Propose p) \<in> set new \<longrightarrow>
            p = ProposeBlock (chain (node s)) (sk (node s)) \<and>
            Propose_run myself (node s') p
              = recvBlockProposal (net (node s)) (myself (net (node s))) p))) \<and>
   (Get (sk (node s)) = Inr k \<longrightarrow>
      (\<exists>s'. StartRound committees ProposeBlock Get rnd s = Inr s'))"
proof -
  let ?P = "(\<lambda>e. case e of Go (Notarize _ _ _ _) \<Rightarrow> False | _ \<Rightarrow> True)"
  obtain rb bp nt where c: "committees (chain (node s)) rnd = (rb, bp, nt)"
    by (cases "committees (chain (node s)) rnd") auto
  let ?ev = "concat (map (\<lambda>m. [Call_ProposeBlock (chain (node s)) (sk (node s)),
                              Go (Propose (ProposeBlock (chain (node s)) (sk (node s))))])
                     (filter (\<lambda>m. groupID m = bp) (memberships (node s))))
               :: ('addr, 'sk, 'key, 'chain, 'bp) event list"
  have p1: "StartRound committees ProposeBlock Get rnd s = Inr s' \<longrightarrow>
      (\<exists>new. trace s' = trace s @ new \<and>
         filter ?P new =
           concat (map (\<lambda>m. [Call_ProposeBlock (chain (node s)) (sk (node s)),
                              Go (Propose (ProposeBlock (chain (node s)) (sk (node s))))])
                     (filter (\<lambda>m. groupID m = fst (snd (committees (chain (node s)) rnd)))
                        (memberships (node s)))) \<and>
         (\<forall>p. Go (Propose p) \<in> set new \<longrightarrow>
            p = ProposeBlock (chain (node s)) (sk (node s)) \<and>
            Propose_run myself (node s') p
              = recvBlockProposal (net (node s)) (myself (net (node s))) p))"
  proof
    assume sr: "StartRound committees ProposeBlock Get rnd s = Inr s'"
    with c obtain c' where
      "StartRound_loop ProposeBlock Get bp nt (memberships (node s)) s None = Inr (s', c')"
      by (auto simp: StartRound_def split: sum.splits)
    from StartRound_loop_trace [OF this] obtain new where
      nt': "net (node s') = net (node s)" and t: "trace s' = trace s @ new"
      and f: "filter ?P new = ?ev"
      by blast
    have pr: "p = ProposeBlock (chain (node s)) (sk (node s)) \<and>
            Propose_run myself (node s') p
              = recvBlockProposal (net (node s)) (myself (net (node s))) p"
      if "Go (Propose p) \<in> set new" for p
    proof -
      from that have "Go (Propose p) \<in> set (filter ?P new)" by simp
      moreover have "set (filter ?P new) = set ?ev" by (simp only: f)
      ultimately have "Go (Propose p) \<in> set ?ev" by blast
      then have "p = ProposeBlock (chain (node s)) (sk (node s))"
        by (auto split: if_splits)
      then show ?thesis by (simp add: Propose_run_def nt')
    qed
    from t f pr c show "\<exists>new. trace s' = trace s @ new \<and>
         filter ?P new =
           concat (map (\<lambda>m. [Call_ProposeBlock (chain (node s)) (sk (node s)),
                              Go (Propose (ProposeBlock (chain (node s)) (sk (node s))))])
                     (filter (\<lambda>m. groupID m = fst (snd (committees (chain (node s)) rnd)))
                        (memberships (node s)))) \<and>
         (\<forall>p. Go (Propose p) \<in> set new \<longrightarrow>
            p = ProposeBlock (chain (node s)) (sk (node s)) \<and>
            Propose_run myself (node s') p
              = recvBlockProposal (net (node s)) (myself (net (node s))) p)"
      by (intro exI [of _ new]) simp
  qed
  have p2: "Get (sk (node s)) = Inr k \<longrightarrow>
      (\<exists>s'. StartRound committees ProposeBlock Get rnd s = Inr s')"
  proof
    assume "Get (sk (node s)) = Inr k"
    from StartRound_loop_returns [of Get s k ProposeBlock bp nt "memberships (node s)" None] this
    obtain s' c' where
      "StartRound_loop ProposeBlock Get bp nt (memberships (node s)) s None = Inr (s', c')"
      by blast
    with c show "\<exists>s'. StartRound committees ProposeBlock Get rnd s = Inr s'"
      by (simp add: StartRound_def)
  qed
  show ?thesis
    by (rule conjI [OF p1 p2])
qed

theorem StartRound_builds_then_broadcasts_witness:
  "StartRound (\<lambda>_ _. (1, 2, 3)) (\<lambda>_ _. 99 :: nat) (\<lambda>s. Inr s) 0
     \<lparr>node = \<lparr>addr = 0 :: nat, cfg = \<lparr>BlockTime = 1, GroupSize = 3, GroupThreshold = 2\<rparr>,
              sk = 5 :: nat, net = (), chain = (),
              memberships = [\<lparr>skShare = 7 :: nat, groupID = 2\<rparr>],
              notarizeChs = [], cancelNotarize = None\<rparr>,
      chans = ([] :: nat chan list), ctxs = [], trace = []\<rparr>
   = Inr
     \<lparr>node = \<lparr>addr = 0 :: nat, cfg = \<lparr>BlockTime = 1, GroupSize = 3, GroupThreshold = 2\<rparr>,
              sk = 5 :: nat, net = (), chain = (),
              memberships = [\<lparr>skShare = 7 :: nat, groupID = 2\<rparr>],
              notarizeChs = [], cancelNotarize = None\<rparr>,
      chans = ([] :: nat chan list), ctxs = [],
      trace = [Call_ProposeBlock () 5, Go (Propose 99)]\<rparr> \<and>
   (\<exists>new. [Call_ProposeBlock () (5 :: nat), Go (Propose (99 :: nat)) :: (nat, nat, nat, unit, nat) event]
            = [] @ new \<and>
      filter (\<lambda>e. case e of Go (Notarize _ _ _ _) \<Rightarrow> False | _ \<Rightarrow> True) new = [Call_ProposeBlock () 5, Go (Propose 99)]) \<and>
   (Propose_run (\<lambda>_. ())
      \<lparr>addr = 0 :: nat, cfg = \<lparr>BlockTime = 1, GroupSize = 3, GroupThreshold = 2\<rparr>,
       sk = 5 :: nat, net = (), chain = (),
       memberships = [\<lparr>skShare = 7 :: nat, groupID = 2\<rparr>],
       notarizeChs = [], cancelNotarize = None\<rparr> (99 :: nat)
     = recvBlockProposal () () 99)"
  using StartRound_builds_then_broadcasts
    [where committees = "\<lambda>_ _. (1, 2, 3)" and ProposeBlock = "\<lambda>_ _. 99 :: nat"
       and Get = "\<lambda>s. Inr s" and rnd = 0 and k = 5 and myself = "\<lambda>_. ()"
       and s = "\<lparr>node = \<lparr>addr = 0 :: nat, cfg = \<lparr>BlockTime = 1, GroupSize = 3, GroupThreshold = 2\<rparr>,
              sk = 5 :: nat, net = (), chain = (),
              memberships = [\<lparr>skShare = 7 :: nat, groupID = 2\<rparr>],
              notarizeChs = [], cancelNotarize = None\<rparr>,
      chans = ([] :: nat chan list), ctxs = [], trace = []\<rparr>"
       and s' = "\<lparr>node = \<lparr>addr = 0 :: nat, cfg = \<lparr>BlockTime = 1, GroupSize = 3, GroupThreshold = 2\<rparr>,
              sk = 5 :: nat, net = (), chain = (),
              memberships = [\<lparr>skShare = 7 :: nat, groupID = 2\<rparr>],
              notarizeChs = [], cancelNotarize = None\<rparr>,
      chans = ([] :: nat chan list), ctxs = [],
      trace = [Call_ProposeBlock () 5, Go (Propose 99)]\<rparr>"]
  by (simp add: StartRound_def StartRound_body_def Propose_run_def)

subsection \<open>Committees\<close>



subsection \<open>MarketSymbol\<close>

lemma byte_step:
  "ucast (ucast (v :: 64 word) :: 8 word) OR push_bit 8 (drop_bit 8 v) = v"
proof (rule bit_word_eqI)
  fix n assume "n < LENGTH(64)"
  show "bit (ucast (ucast v :: 8 word) OR push_bit 8 (drop_bit 8 v) :: 64 word) n = bit v n"
  proof (cases "n < 8")
    case True
    then show ?thesis
      by (simp add: bit_or_iff bit_ucast_iff bit_push_bit_iff bit_drop_bit_eq)
  next
    case False
    then show ?thesis
      using \<open>n < LENGTH(64)\<close>
      by (simp add: bit_or_iff bit_ucast_iff bit_push_bit_iff bit_drop_bit_eq)
  qed
qed

lemma drop64: "drop_bit 64 (w :: 64 word) = 0"
  by (rule bit_word_eqI) (simp add: bit_drop_bit_eq bit_imp_le_length)


lemma bytes_u64_from:
  "k \<le> 8 \<Longrightarrow>
   foldr (\<lambda>b acc. ucast b OR push_bit 8 acc)
     (map (\<lambda>i. ucast (drop_bit (8 * i) w) :: byte) [8 - k..<8]) (0 :: 64 word)
   = drop_bit (8 * (8 - k)) w"
proof (induction k)
  case 0
  show ?case by (simp add: drop64)
next
  case (Suc k)
  then have k: "k < 8" by simp
  then have sk: "Suc (8 - Suc k) = 8 - k" by arith
  from k have "8 - Suc k < 8" by arith
  then have "[8 - Suc k..<8] = (8 - Suc k) # [Suc (8 - Suc k)..<8]"
    by (rule upt_conv_Cons)
  then have up: "[8 - Suc k..<8] = (8 - Suc k) # [8 - k..<8]"
    by (simp only: sk)
  have "8 * (8 - k) = 8 * (8 - Suc k) + 8"
    using k by simp
  then have dd: "drop_bit (8 * (8 - k)) w = drop_bit 8 (drop_bit (8 * (8 - Suc k)) w)"
    by (simp add: drop_bit_drop_bit add.commute)
  from Suc k have ih: "foldr (\<lambda>b acc. ucast b OR push_bit 8 acc)
     (map (\<lambda>i. ucast (drop_bit (8 * i) w) :: byte) [8 - k..<8]) (0 :: 64 word)
     = drop_bit (8 * (8 - k)) w"
    by simp
  show ?case
    unfolding up by (simp only: list.map foldr.simps o_apply ih dd byte_step)
qed

lemma bytes_u64_u64_bytes: "bytes_u64 (u64_bytes w) = w"
  using bytes_u64_from [of 8 w] by (simp add: bytes_u64_def u64_bytes_def)

lemma length_u64_bytes: "length (u64_bytes w) = 8"
  by (simp add: u64_bytes_def)



text \<open>
  C8. Decoding the encoding of a \<^verbatim>\<open>MarketSymbol\<close> gives the same \<^verbatim>\<open>MarketSymbol\<close>
  back; an encoding has 16 bytes; two \<^verbatim>\<open>MarketSymbol\<close>s that differ in \<^verbatim>\<open>Quote\<close> or
  in \<^verbatim>\<open>Base\<close> have different encodings.
\<close>

theorem MarketSymbol_roundtrip_injective:
  "Decode (Encode m) = Inr m \<and> length (Encode m) = 16 \<and>
   (Quote m1 \<noteq> Quote m2 \<or> Base m1 \<noteq> Base m2 \<longrightarrow> Encode m1 \<noteq> Encode m2)"
proof -
  have rt: "Decode (Encode m) = Inr m" for m
    by (simp add: Decode_def Encode_def length_u64_bytes bytes_u64_u64_bytes)
  have len: "length (Encode m) = 16"
    by (simp add: Encode_def length_u64_bytes)
  have "Encode m1 \<noteq> Encode m2" if d: "Quote m1 \<noteq> Quote m2 \<or> Base m1 \<noteq> Base m2"
  proof
    assume "Encode m1 = Encode m2"
    then have "Decode (Encode m1) = Decode (Encode m2)" by simp
    then have "m1 = m2" by (simp add: rt)
    with d show False by simp
  qed
  with rt len show ?thesis by blast
qed

theorem MarketSymbol_roundtrip_injective_witness:
  "Base \<lparr>Quote = 18446744073709551614, Base = 18446744073709551615\<rparr>
     \<noteq> Base \<lparr>Quote = 18446744073709551614, Base = 18446744073709551613\<rparr> \<and>
   Encode \<lparr>Quote = 18446744073709551614, Base = 18446744073709551615\<rparr>
     \<noteq> Encode \<lparr>Quote = 18446744073709551614, Base = 18446744073709551613\<rparr> \<and>
   Decode (Encode \<lparr>Quote = 1, Base = 18446744073709551615\<rparr>)
     = Inr \<lparr>Quote = 1, Base = 18446744073709551615\<rparr>"
  using MarketSymbol_roundtrip_injective
    [of "\<lparr>Quote = 1, Base = 18446744073709551615\<rparr>"
        "\<lparr>Quote = 18446744073709551614, Base = 18446744073709551615\<rparr>"
        "\<lparr>Quote = 18446744073709551614, Base = 18446744073709551613\<rparr>"]
  by simp


end
